theory Spec2Isabelle
  imports Complex_Main
begin

section \<open>Aperture photometry pipeline: values and errors\<close>

text \<open>
  The embedding follows \<^verbatim>\<open>aperture_photometry_pipeline.ipynb\<close>. Pixel values are
  float64 in the source (the frame minus its median); finite float64 arithmetic is
  taken as exact arithmetic on \<^typ>\<open>real\<close>, and the non-finite results that numpy
  produces without raising (a division by a zero sum, the logarithm of a non-positive
  flux) are kept as explicit values. Pixel coordinates are numpy int64 in the source and
  \<^typ>\<open>int\<close> here: coordinates stay far from the 64-bit limits. \<^verbatim>\<open>offset\<close> and
  \<^verbatim>\<open>radius\<close> are integers, as the defaults 10 and 5 of the script are.
\<close>

datatype npfloat = Finite real | NaN | PInf | NInf

datatype error = IndexError | ValueError | OverflowError

text \<open>numpy division of two finite float64 scalars: a warning, never an exception.\<close>

definition fdiv :: "real \<Rightarrow> real \<Rightarrow> npfloat" where
  "fdiv a b =
     (if b \<noteq> 0 then Finite (a / b)
      else if a = 0 then NaN
      else if 0 < a then PInf else NInf)"

text \<open>\<^verbatim>\<open>f + k\<close> for a float \<open>f\<close> and an integer \<open>k\<close>.\<close>

fun fadd_int :: "npfloat \<Rightarrow> int \<Rightarrow> npfloat" where
  "fadd_int (Finite r) k = Finite (r + of_int k)"
| "fadd_int NaN k = NaN"
| "fadd_int PInf k = PInf"
| "fadd_int NInf k = NInf"

text \<open>\<^verbatim>\<open>f < 0\<close> on a float: false for NaN.\<close>

fun fneg :: "npfloat \<Rightarrow> bool" where
  "fneg (Finite r) = (r < 0)"
| "fneg NaN = False"
| "fneg PInf = False"
| "fneg NInf = True"

text \<open>Python's \<^verbatim>\<open>int(f)\<close>: truncation towards zero; NaN and the infinities raise.\<close>

definition py_trunc :: "real \<Rightarrow> int" where
  "py_trunc r = (if 0 \<le> r then \<lfloor>r\<rfloor> else \<lceil>r\<rceil>)"

fun py_int :: "npfloat \<Rightarrow> error + int" where
  "py_int (Finite r) = Inr (py_trunc r)"
| "py_int NaN = Inl ValueError"
| "py_int PInf = Inl OverflowError"
| "py_int NInf = Inl OverflowError"

text \<open>
  Indexing \<^verbatim>\<open>xs[i]\<close>: a negative index counts from the end, an index outside
  \<open>[-n, n)\<close> raises IndexError.
\<close>

definition py_get :: "'a list \<Rightarrow> int \<Rightarrow> error + 'a" where
  "py_get xs i =
     (if 0 \<le> i \<and> i < int (length xs) then Inr (xs ! nat i)
      else if i < 0 \<and> - int (length xs) \<le> i then Inr (xs ! nat (int (length xs) + i))
      else Inl IndexError)"

text \<open>
  One bound of a slice \<^verbatim>\<open>xs[a:b]\<close>: a negative bound counts from the end, and the
  result is clipped to \<open>[0, n]\<close>. Slicing never raises.
\<close>

definition slice_bound :: "nat \<Rightarrow> int \<Rightarrow> nat" where
  "slice_bound n a = (if a < 0 then nat (max (a + int n) 0) else min (nat a) n)"

definition py_slice :: "'a list \<Rightarrow> int \<Rightarrow> int \<Rightarrow> 'a list" where
  "py_slice xs a b =
     (let lo = slice_bound (length xs) a; hi = slice_bound (length xs) b
      in take (hi - lo) (drop lo xs))"

text \<open>The two-dimensional slice \<^verbatim>\<open>data[a:b, c:d]\<close>: rows \<open>a:b\<close>, columns \<open>c:d\<close> of each.\<close>

definition py_slice2 :: "'a list list \<Rightarrow> int \<Rightarrow> int \<Rightarrow> int \<Rightarrow> int \<Rightarrow> 'a list list" where
  "py_slice2 data a b c d = map (\<lambda>row. py_slice row c d) (py_slice data a b)"

section \<open>Centroid tracker\<close>

text \<open>
  \<^verbatim>\<open>centroid(arr)\<close>: the moments \<open>\<Sum> arr[i][j] * j\<close> and \<open>\<Sum> arr[i][j] * i\<close>, each
  divided by \<^verbatim>\<open>np.sum(arr)\<close>.
\<close>

definition row_moment :: "real list \<Rightarrow> real" where
  "row_moment row = sum_list (map (\<lambda>j. row ! j * real j) [0..<length row])"

definition x_sum :: "real list list \<Rightarrow> real" where
  "x_sum arr = sum_list (map row_moment arr)"

definition y_sum :: "real list list \<Rightarrow> real" where
  "y_sum arr = sum_list (map (\<lambda>i. sum_list (arr ! i) * real i) [0..<length arr])"

definition np_sum :: "real list list \<Rightarrow> real" where
  "np_sum arr = sum_list (concat arr)"

definition centroid :: "real list list \<Rightarrow> npfloat \<times> npfloat" where
  "centroid arr = (fdiv (x_sum arr) (np_sum arr), fdiv (y_sum arr) (np_sum arr))"

text \<open>
  The clamping chain at the head of the loop body of \<^verbatim>\<open>find_objects_stats\<close>. A
  position is \<open>(x, y)\<close>, as \<^verbatim>\<open>positions[i][0]\<close> and \<^verbatim>\<open>positions[i][1]\<close>. The last test
  reads \<^verbatim>\<open>len(data[0])\<close>, which raises on a frame with no rows.
\<close>

definition clamp_position :: "int \<Rightarrow> real list list \<Rightarrow> int \<times> int \<Rightarrow> error + int \<times> int" where
  "clamp_position offset data p =
     (let x = fst p; y = snd p in
      if y - offset < 0 then Inr (x, offset)
      else if y + offset \<ge> int (length data) then Inr (x, int (length data) - offset - 1)
      else if x - offset < 0 then Inr (0, y)
      else (case data of
              [] \<Rightarrow> Inl IndexError
            | row0 # _ \<Rightarrow>
                if x + offset \<ge> int (length row0) then Inr (int (length row0) - offset - 1, y)
                else Inr (x, y)))"

text \<open>The search window \<^verbatim>\<open>data[y - offset : y + offset, x - offset : x + offset]\<close>.\<close>

definition data_region :: "int \<Rightarrow> real list list \<Rightarrow> int \<times> int \<Rightarrow> real list list" where
  "data_region offset data p =
     py_slice2 data (snd p - offset) (snd p + offset) (fst p - offset) (fst p + offset)"

text \<open>
  The re-indexed centroid \<^verbatim>\<open>cen\<close> and the peak \<^verbatim>\<open>data[int(cen[1])][int(cen[0])]\<close>,
  evaluated in Python's order: the row index first, then the column index.
\<close>

definition reindex :: "int \<Rightarrow> real list list \<Rightarrow> int \<times> int \<Rightarrow> npfloat \<times> npfloat" where
  "reindex offset data p =
     (let c = centroid (data_region offset data p)
      in (fadd_int (fst c) (fst p - offset), fadd_int (snd c) (snd p - offset)))"

definition peak_at :: "real list list \<Rightarrow> npfloat \<times> npfloat \<Rightarrow> error + real" where
  "peak_at data cen =
     (case py_int (snd cen) of
        Inl e \<Rightarrow> Inl e
      | Inr iy \<Rightarrow>
          (case py_get data iy of
             Inl e \<Rightarrow> Inl e
           | Inr row \<Rightarrow>
               (case py_int (fst cen) of
                  Inl e \<Rightarrow> Inl e
                | Inr ix \<Rightarrow> py_get row ix)))"

text \<open>
  One pass of the loop body for one object: the position as the body leaves it in the
  caller's array (the assignment \<^verbatim>\<open>positions[i][1] = offset\<close> writes into the array
  that was passed in), the centroid and the peak.
\<close>

definition track_one ::
  "int \<Rightarrow> real list list \<Rightarrow> int \<times> int \<Rightarrow>
     error + ((int \<times> int) \<times> (npfloat \<times> npfloat) \<times> real)" where
  "track_one offset data p =
     (case clamp_position offset data p of
        Inl e \<Rightarrow> Inl e
      | Inr p' \<Rightarrow>
          (let cen = reindex offset data p' in
           case peak_at data cen of
             Inl e \<Rightarrow> Inl e
           | Inr pk \<Rightarrow> Inr (p', cen, pk)))"

text \<open>The loop over the objects: the first exception ends the run.\<close>

fun track_all ::
  "int \<Rightarrow> real list list \<Rightarrow> (int \<times> int) list \<Rightarrow>
     error + ((int \<times> int) \<times> (npfloat \<times> npfloat) \<times> real) list" where
  "track_all offset data [] = Inr []"
| "track_all offset data (p # ps) =
     (case track_one offset data p of
        Inl e \<Rightarrow> Inl e
      | Inr r \<Rightarrow>
          (case track_all offset data ps of
             Inl e \<Rightarrow> Inl e
           | Inr rs \<Rightarrow> Inr (r # rs)))"

section \<open>Aperture photometry\<close>

text \<open>
  \<^verbatim>\<open>CircularAperture\<close> and \<^verbatim>\<open>aperture_photometry\<close> belong to photutils. The sum
  over one aperture is a parameter \<open>ap\<close> of the model: frame, radius and centre give
  the aperture sum; the library returns one row per centre, in the order of the
  centres, and rejects an empty list of centres. A row of the table that
  \<^verbatim>\<open>find_objects_stats\<close> returns is \<open>(xcenter, ycenter, aperture_sum)\<close>.
\<close>

type_synonym aperture_fn = "real list list \<Rightarrow> int \<Rightarrow> npfloat \<times> npfloat \<Rightarrow> npfloat"

type_synonym phot_entry = "npfloat \<times> npfloat \<times> npfloat"

definition phot_entry_of :: "aperture_fn \<Rightarrow> int \<Rightarrow> real list list \<Rightarrow> npfloat \<times> npfloat \<Rightarrow> phot_entry" where
  "phot_entry_of ap radius data cen = (fst cen, snd cen, ap data radius cen)"

text \<open>
  \<^verbatim>\<open>find_objects_stats(data, positions, file)\<close>: the positions as the call leaves them,
  the photometry table and the peaks.
\<close>

definition find_objects_stats ::
  "aperture_fn \<Rightarrow> int \<Rightarrow> int \<Rightarrow> real list list \<Rightarrow> (int \<times> int) list \<Rightarrow>
     error + ((int \<times> int) list \<times> phot_entry list \<times> real list)" where
  "find_objects_stats ap offset radius data positions =
     (case track_all offset data positions of
        Inl e \<Rightarrow> Inl e
      | Inr rs \<Rightarrow>
          if rs = [] then Inl ValueError
          else Inr (map fst rs,
                    map (\<lambda>r. phot_entry_of ap radius data (fst (snd r))) rs,
                    map (\<lambda>r. snd (snd r)) rs))"

section \<open>The per-frame loop\<close>

text \<open>
  A frame as the loop reads it: the pixel array \<^verbatim>\<open>hdulist[0].data\<close>, the start time
  already converted to a modified Julian date, the exposure time and the file name.
\<close>

record frame =
  data_wsky :: "real list list"
  UTCSTART_mjd :: real
  EXPTIME :: real
  fits_file :: string

text \<open>One row of \<^verbatim>\<open>aperture_table\<close>, with the columns the loop adds.\<close>

record phot_row =
  xcenter :: npfloat
  ycenter :: npfloat
  aperture_sum :: npfloat
  aperture_mag :: npfloat
  peak :: real
  name :: string
  R :: int
  sky :: npfloat
  MJD :: real
  exptime :: real
  filename :: string

text \<open>\<^verbatim>\<open>np.median\<close> of all pixels; NaN (with a warning) when there is none.\<close>

definition median :: "real list \<Rightarrow> npfloat" where
  "median xs =
     (let s = sort xs; n = length s in
      if n = 0 then NaN
      else if odd n then Finite (s ! (n div 2))
      else Finite ((s ! (n div 2 - 1) + s ! (n div 2)) / 2))"

text \<open>\<^verbatim>\<open>data = data_wsky - skybkg\<close>; a frame without pixels has nothing to subtract from.\<close>

definition subtract_sky :: "npfloat \<Rightarrow> real list list \<Rightarrow> real list list" where
  "subtract_sky skybkg d =
     (case skybkg of Finite s \<Rightarrow> map (map (\<lambda>v. v - s)) d | _ \<Rightarrow> d)"

text \<open>
  The magnitude \<^verbatim>\<open>-2.5*(np.log10(aperture_sum / fluxzero)) + magzero\<close>. numpy's
  \<^verbatim>\<open>log10\<close> gives \<open>-inf\<close> at zero and NaN below it, with a warning.
\<close>

definition fluxzero :: real where
  "fluxzero = 10.91926955"

definition magzero :: real where
  "magzero = 22.40441725"

fun mag :: "npfloat \<Rightarrow> npfloat" where
  "mag (Finite s) =
     (if 0 < s then Finite (- 2.5 * log 10 (s / fluxzero) + magzero)
      else if s = 0 then PInf else NaN)"
| "mag NaN = NaN"
| "mag PInf = NInf"
| "mag NInf = NaN"

text \<open>
  The state of the loop. \<^verbatim>\<open>positions\<close> is a numpy view of one column of
  \<^verbatim>\<open>starting_positions\<close> (basic slicing \<^verbatim>\<open>starting_positions[:,k]\<close> does not copy), so
  the state holds the table, indexed object then round, and the column \<open>positions_col\<close>
  that the view shows; reading \<^verbatim>\<open>positions\<close> reads that column and writing
  \<^verbatim>\<open>positions[i]\<close> writes it. The table is rectangular, every object with the same
  number of rounds, or the array could not have been built and sliced; the columns read
  here are those of a rectangular table.
\<close>

record state =
  starting_positions :: "(int \<times> int) list list"
  positions_col :: nat
  starting_positions_index :: nat
  aperture_table :: "phot_row list"

definition column :: "nat \<Rightarrow> 'a list list \<Rightarrow> 'a list" where
  "column k tbl = map (\<lambda>row. row ! k) tbl"

definition set_column :: "nat \<Rightarrow> 'a list \<Rightarrow> 'a list list \<Rightarrow> 'a list list" where
  "set_column k ps tbl = map (\<lambda>(row, p). row[k := p]) (zip tbl ps)"

definition positions :: "state \<Rightarrow> (int \<times> int) list" where
  "positions st = column (positions_col st) (starting_positions st)"

definition write_positions :: "(int \<times> int) list \<Rightarrow> state \<Rightarrow> state" where
  "write_positions ps st =
     st\<lparr>starting_positions := set_column (positions_col st) ps (starting_positions st)\<rparr>"

text \<open>\<^verbatim>\<open>any(i < 0 for i in phot_table["aperture_sum"])\<close>\<close>

definition any_negative :: "phot_entry list \<Rightarrow> bool" where
  "any_negative tbl = list_ex (\<lambda>e. fneg (snd (snd e))) tbl"

text \<open>
  The columns added to \<^verbatim>\<open>phot_table\<close>. Assigning \<^verbatim>\<open>names\<close> as a column raises when
  its length is not the number of rows.
\<close>

definition make_row ::
  "int \<Rightarrow> npfloat \<Rightarrow> frame \<Rightarrow> string \<times> phot_entry \<times> real \<Rightarrow> phot_row" where
  "make_row radius skybkg fr t =
     (let e = fst (snd t) in
      \<lparr>xcenter = fst e, ycenter = fst (snd e), aperture_sum = snd (snd e),
       aperture_mag = mag (snd (snd e)), peak = snd (snd t), name = fst t,
       R = radius, sky = skybkg, MJD = UTCSTART_mjd fr, exptime = EXPTIME fr,
       filename = fits_file fr\<rparr>)"

definition make_rows ::
  "string list \<Rightarrow> int \<Rightarrow> npfloat \<Rightarrow> frame \<Rightarrow> phot_entry list \<Rightarrow> real list \<Rightarrow>
     error + phot_row list" where
  "make_rows names radius skybkg fr tbl peaks =
     (if length names \<noteq> length tbl then Inl ValueError
      else Inr (map (make_row radius skybkg fr) (zip names (zip tbl peaks))))"

text \<open>
  The closing loop \<^verbatim>\<open>positions[i] = [int(xcenter[i]), int(ycenter[i])]\<close>: the values
  written, in order.
\<close>

fun truncated_centroids :: "phot_entry list \<Rightarrow> error + (int \<times> int) list" where
  "truncated_centroids [] = Inr []"
| "truncated_centroids (e # es) =
     (case py_int (fst e) of
        Inl err \<Rightarrow> Inl err
      | Inr x \<Rightarrow>
          (case py_int (fst (snd e)) of
             Inl err \<Rightarrow> Inl err
           | Inr y \<Rightarrow>
               (case truncated_centroids es of
                  Inl err \<Rightarrow> Inl err
                | Inr ps \<Rightarrow> Inr ((x, y) # ps))))"

text \<open>
  The end of the loop body, from the magnitude column to the position update: the rows
  are stacked under \<^verbatim>\<open>aperture_table\<close> and the truncated centroids are written
  through \<^verbatim>\<open>positions\<close>.
\<close>

definition record_frame ::
  "string list \<Rightarrow> int \<Rightarrow> npfloat \<Rightarrow> frame \<Rightarrow> phot_entry list \<Rightarrow> real list \<Rightarrow> state \<Rightarrow>
     error + state" where
  "record_frame names radius skybkg fr tbl peaks st =
     (case make_rows names radius skybkg fr tbl peaks of
        Inl e \<Rightarrow> Inl e
      | Inr rows \<Rightarrow>
          (case truncated_centroids tbl of
             Inl e \<Rightarrow> Inl e
           | Inr ps \<Rightarrow>
               Inr (write_positions ps (st\<lparr>aperture_table := aperture_table st @ rows\<rparr>))))"

text \<open>
  The fallback after a negative aperture sum: the index moves on; when it still names a
  round (\<^verbatim>\<open>starting_positions_index < len(starting_positions[0])\<close>), \<^verbatim>\<open>positions\<close>
  becomes the view of that column and the tracker runs again on it.
\<close>

definition retry ::
  "aperture_fn \<Rightarrow> int \<Rightarrow> int \<Rightarrow> real list list \<Rightarrow> phot_entry list \<Rightarrow> real list \<Rightarrow> state \<Rightarrow>
     error + (phot_entry list \<times> real list \<times> state)" where
  "retry ap offset radius data tbl peaks st =
     (let st' = st\<lparr>starting_positions_index := starting_positions_index st + 1\<rparr> in
      case starting_positions st' of
        [] \<Rightarrow> Inl IndexError
      | row0 # _ \<Rightarrow>
          if starting_positions_index st' < length row0 then
            (let st'' = st'\<lparr>positions_col := starting_positions_index st'\<rparr> in
             case find_objects_stats ap offset radius data (positions st'') of
               Inl e \<Rightarrow> Inl e
             | Inr (ps2, tbl2, peaks2) \<Rightarrow> Inr (tbl2, peaks2, write_positions ps2 st''))
          else Inr (tbl, peaks, st'))"

text \<open>The body of \<^verbatim>\<open>for file in fits_filenames\<close>.\<close>

definition process_frame ::
  "aperture_fn \<Rightarrow> int \<Rightarrow> int \<Rightarrow> string list \<Rightarrow> state \<Rightarrow> frame \<Rightarrow> error + state" where
  "process_frame ap offset radius names st fr =
     (let skybkg = median (concat (data_wsky fr));
          data = subtract_sky skybkg (data_wsky fr)
      in case find_objects_stats ap offset radius data (positions st) of
           Inl e \<Rightarrow> Inl e
         | Inr (ps1, tbl1, peaks1) \<Rightarrow>
             (let st1 = write_positions ps1 st in
              if any_negative tbl1 then
                (case retry ap offset radius data tbl1 peaks1 st1 of
                   Inl e \<Rightarrow> Inl e
                 | Inr (tbl2, peaks2, st2) \<Rightarrow>
                     record_frame names radius skybkg fr tbl2 peaks2 st2)
              else record_frame names radius skybkg fr tbl1 peaks1 st1))"

text \<open>The loop over the frames; an exception in one frame ends the run.\<close>

fun run ::
  "aperture_fn \<Rightarrow> int \<Rightarrow> int \<Rightarrow> string list \<Rightarrow> state \<Rightarrow> frame list \<Rightarrow> error + state" where
  "run ap offset radius names st [] = Inr st"
| "run ap offset radius names st (fr # frs) =
     (case process_frame ap offset radius names st fr of
        Inl e \<Rightarrow> Inl e
      | Inr st' \<Rightarrow> run ap offset radius names st' frs)"

text \<open>
  The state before the first frame: \<^verbatim>\<open>positions = starting_positions[:,0]\<close>,
  \<^verbatim>\<open>starting_positions_index = 0\<close> and the empty table.
\<close>

definition initial_state :: "(int \<times> int) list list \<Rightarrow> state" where
  "initial_state sp =
     \<lparr>starting_positions = sp, positions_col = 0, starting_positions_index = 0,
      aperture_table = []\<rparr>"

section \<open>Reading the coordinate file\<close>

text \<open>\<^verbatim>\<open>s.split(sep)\<close> for a one-character separator: never empty, \<open>[s]\<close> without it.\<close>

fun split_on :: "char \<Rightarrow> string \<Rightarrow> string list" where
  "split_on c [] = [[]]"
| "split_on c (x # xs) =
     (if x = c then [] # split_on c xs
      else (case split_on c xs of
              [] \<Rightarrow> [[x]]
            | w # ws \<Rightarrow> (x # w) # ws))"

text \<open>
  One line of the file. \<^verbatim>\<open>int(float(s))\<close> is Python's own parser and is a parameter
  \<open>int_float\<close> here. The right-hand side \<^verbatim>\<open>line.split(':')[0], line.split(':')[1]\<close> is
  evaluated before anything is parsed as a number.
\<close>

definition parse_line ::
  "(string \<Rightarrow> error + int) \<Rightarrow> string \<Rightarrow> error + (string \<times> (int \<times> int))" where
  "parse_line int_float line =
     (case py_get (split_on CHR '':'' line) 0 of
        Inl e \<Rightarrow> Inl e
      | Inr nm \<Rightarrow>
     (case py_get (split_on CHR '':'' line) 1 of
        Inl e \<Rightarrow> Inl e
      | Inr coord \<Rightarrow>
     (case py_get (split_on CHR '','' coord) 0 of
        Inl e \<Rightarrow> Inl e
      | Inr c0 \<Rightarrow>
     (case int_float (drop 1 c0) of
        Inl e \<Rightarrow> Inl e
      | Inr xcor \<Rightarrow>
     (case py_get (split_on CHR '','' coord) 1 of
        Inl e \<Rightarrow> Inl e
      | Inr c1 \<Rightarrow>
     (case int_float (butlast c1) of
        Inl e \<Rightarrow> Inl e
      | Inr ycor \<Rightarrow> Inr (nm, (xcor, ycor))))))))"

text \<open>\<^verbatim>\<open>names.index(name)\<close> for a name that is in the list.\<close>

fun index_of :: "'a \<Rightarrow> 'a list \<Rightarrow> nat" where
  "index_of x [] = 0"
| "index_of x (y # ys) = (if x = y then 0 else Suc (index_of x ys))"

text \<open>The \<^verbatim>\<open>if name in names\<close> step on the two lists \<^verbatim>\<open>names\<close> and \<^verbatim>\<open>starting_positions\<close>.\<close>

definition add_coord ::
  "string list \<times> (int \<times> int) list list \<Rightarrow> string \<times> (int \<times> int) \<Rightarrow>
     string list \<times> (int \<times> int) list list" where
  "add_coord acc t =
     (let nms = fst acc; sp = snd acc; k = index_of (fst t) nms in
      if fst t \<in> set nms then (nms, sp[k := sp ! k @ [snd t]])
      else (nms @ [fst t], sp @ [[snd t]]))"

fun parse_lines ::
  "(string \<Rightarrow> error + int) \<Rightarrow> string list \<times> (int \<times> int) list list \<Rightarrow> string list \<Rightarrow>
     error + (string list \<times> (int \<times> int) list list)" where
  "parse_lines int_float acc [] = Inr acc"
| "parse_lines int_float acc (l # ls) =
     (case parse_line int_float l of
        Inl e \<Rightarrow> Inl e
      | Inr t \<Rightarrow> parse_lines int_float (add_coord acc t) ls)"

text \<open>
  \<^verbatim>\<open>np.array(starting_positions)\<close> followed by \<^verbatim>\<open>starting_positions[:,0]\<close> needs every
  object to have the same number of rounds; otherwise one of the two raises.
\<close>

definition rectangular :: "'a list list \<Rightarrow> bool" where
  "rectangular tbl = list_all (\<lambda>row. length row = length (hd tbl)) tbl"

definition read_coords ::
  "(string \<Rightarrow> error + int) \<Rightarrow> string \<Rightarrow> error + (string list \<times> (int \<times> int) list list)" where
  "read_coords int_float text =
     (case parse_lines int_float ([], []) (split_on CHR ''\<newline>'' text) of
        Inl e \<Rightarrow> Inl e
      | Inr acc \<Rightarrow> if rectangular (snd acc) then Inr acc else Inl ValueError)"

text \<open>
  The script from the coordinate file to the table: the file is read first, each frame is
  opened inside the loop, and the table is written once the loop has ended.
\<close>

definition photometry_pipeline ::
  "(string \<Rightarrow> error + int) \<Rightarrow> aperture_fn \<Rightarrow> int \<Rightarrow> int \<Rightarrow> string \<Rightarrow> frame list \<Rightarrow>
     error + phot_row list" where
  "photometry_pipeline int_float ap offset radius text frames =
     (case read_coords int_float text of
        Inl e \<Rightarrow> Inl e
      | Inr acc \<Rightarrow>
          (case run ap offset radius (fst acc) (initial_state (snd acc)) frames of
             Inl e \<Rightarrow> Inl e
           | Inr st \<Rightarrow> Inr (aperture_table st)))"

subsection \<open>The shape of the table\<close>

text \<open>
  The shape the loop keeps: a rectangular table with at least one object and one round,
  and \<^verbatim>\<open>positions\<close> the view of column \<^verbatim>\<open>starting_positions_index\<close>, or of the last
  column once the index has run past the rounds.
\<close>

definition table_ok :: "state \<Rightarrow> bool" where
  "table_ok st =
     (starting_positions st \<noteq> [] \<and> hd (starting_positions st) \<noteq> [] \<and>
      rectangular (starting_positions st) \<and>
      positions_col st =
        min (starting_positions_index st) (length (hd (starting_positions st)) - 1))"

section \<open>Instances for evaluation\<close>

text \<open>
  A concrete aperture sum for the evaluations below. It is not the library's: the script
  calls \<^verbatim>\<open>aperture_photometry\<close> with its default method, which weighs each pixel by
  its exact overlap with the circle; here a pixel counts whole when its centre \<open>(j, i)\<close>
  lies within the radius of the aperture centre, and a centre off the frame gives 0. The
  theorems on the tracker and the loop take the aperture sum as a parameter.
\<close>

definition center_aperture :: aperture_fn where
  "center_aperture data r cen =
     (case cen of
        (Finite cx, Finite cy) \<Rightarrow>
          Finite (sum_list (map (\<lambda>i. sum_list (map (\<lambda>j.
                     if (real j - cx)\<^sup>2 + (real i - cy)\<^sup>2 \<le> (real_of_int r)\<^sup>2
                     then data ! i ! j else 0) [0..<length (data ! i)])) [0..<length data]))
      | _ \<Rightarrow> NaN)"

text \<open>
  A concrete number parser for the evaluations below, narrower than Python's
  \<^verbatim>\<open>int(float(s))\<close>: it reads decimal digits after optional blanks, as in the
  documented file format, and rejects everything else with a ValueError, also the signs,
  fractions, exponents and trailing blanks that Python accepts; it does not round through
  float64. The theorems on the parser take the number parser as a parameter.
\<close>

definition digit_value :: "char \<Rightarrow> nat" where
  "digit_value c = of_char c - 48"

definition is_digit :: "char \<Rightarrow> bool" where
  "is_digit c = (48 \<le> (of_char c :: nat) \<and> (of_char c :: nat) \<le> 57)"

definition digits_int_float :: "string \<Rightarrow> error + int" where
  "digits_int_float s =
     (let t = dropWhile (\<lambda>c. c = CHR '' '') s in
      if t \<noteq> [] \<and> list_all is_digit t
      then Inr (int (foldl (\<lambda>a c. 10 * a + digit_value c) 0 t))
      else Inl ValueError)"

text \<open>A 5 by 5 frame with two bright pixels, already sky-subtracted.\<close>

definition frame5 :: "real list list" where
  "frame5 = [[1, 1, 1, 1, 1],
             [1, 2, 3, 1, 1],
             [1, 4, 9, 1, 1],
             [1, 1, 1, 1, 5],
             [1, 1, 1, 1, 1]]"

text \<open>A 100 by 100 frame of constant value 1.\<close>

definition flat100 :: "real list list" where
  "flat100 = replicate 100 (replicate 100 1)"

text \<open>A frame whose pixels are all 7, and what is left of it once the median is taken off.\<close>

definition constant_frame :: frame where
  "constant_frame =
     \<lparr>data_wsky = [[7, 7, 7, 7, 7], [7, 7, 7, 7, 7], [7, 7, 7, 7, 7], [7, 7, 7, 7, 7], [7, 7, 7, 7, 7]],
      UTCSTART_mjd = 59215, EXPTIME = 30, fits_file = ''a.fits''\<rparr>"

definition zeros5 :: "real list list" where
  "zeros5 = [[0, 0, 0, 0, 0], [0, 0, 0, 0, 0], [0, 0, 0, 0, 0], [0, 0, 0, 0, 0], [0, 0, 0, 0, 0]]"

text \<open>
  A 7 by 7 frame with sky level 5, a dark pixel at \<open>(1, 1)\<close> and a star at \<open>(4, 4)\<close>, and what
  is left of it once the median is taken off.
\<close>

definition sky_frame :: frame where
  "sky_frame =
     \<lparr>data_wsky = [[5, 5, 5, 5, 5, 5, 5],
                   [5, 1, 5, 5, 5, 5, 5],
                   [5, 5, 5, 5, 5, 5, 5],
                   [5, 5, 5, 5, 5, 5, 5],
                   [5, 5, 5, 5, 9, 7, 5],
                   [5, 5, 5, 5, 5, 5, 5],
                   [5, 5, 5, 5, 5, 5, 5]],
      UTCSTART_mjd = 59215, EXPTIME = 30, fits_file = ''a.fits''\<rparr>"

definition sky_data :: "real list list" where
  "sky_data = [[0, 0, 0, 0, 0, 0, 0],
               [0, - 4, 0, 0, 0, 0, 0],
               [0, 0, 0, 0, 0, 0, 0],
               [0, 0, 0, 0, 0, 0, 0],
               [0, 0, 0, 0, 4, 2, 0],
               [0, 0, 0, 0, 0, 0, 0],
               [0, 0, 0, 0, 0, 0, 0]]"

text \<open>The table row of an object on \<open>sky_frame\<close> with aperture radius 1.\<close>

definition sky_row :: "string \<Rightarrow> npfloat \<Rightarrow> npfloat \<Rightarrow> npfloat \<Rightarrow> real \<Rightarrow> phot_row" where
  "sky_row nm cx cy s pk = make_row 1 (Finite 5) sky_frame (nm, (cx, cy, s), pk)"

text \<open>
  States of the loop on \<open>sky_frame\<close>: one object with two rounds after one and two frames,
  two objects with one round each after one and two frames.
\<close>

definition sky_state1 :: state where
  "sky_state1 =
     \<lparr>starting_positions = [[(1, 1), (4, 4)]], positions_col = 1, starting_positions_index = 1,
      aperture_table = [sky_row ''A0620'' (Finite 4) (Finite 4) (Finite 6) 4]\<rparr>"

definition sky_state2 :: state where
  "sky_state2 =
     \<lparr>starting_positions = [[(1, 1), (4, 4)]], positions_col = 1, starting_positions_index = 1,
      aperture_table = [sky_row ''A0620'' (Finite 4) (Finite 4) (Finite 6) 4,
                        sky_row ''A0620'' (Finite 4) (Finite 4) (Finite 6) 4]\<rparr>"

definition lost_state1 :: state where
  "lost_state1 =
     \<lparr>starting_positions = [[(1, 1)], [(4, 4)]], positions_col = 0, starting_positions_index = 1,
      aperture_table = [sky_row ''A0620'' (Finite 1) (Finite 1) (Finite (- 4)) (- 4),
                        sky_row ''compstar1'' (Finite 4) (Finite 4) (Finite 6) 4]\<rparr>"

definition lost_state2 :: state where
  "lost_state2 =
     \<lparr>starting_positions = [[(1, 1)], [(4, 4)]], positions_col = 0, starting_positions_index = 2,
      aperture_table = [sky_row ''A0620'' (Finite 1) (Finite 1) (Finite (- 4)) (- 4),
                        sky_row ''compstar1'' (Finite 4) (Finite 4) (Finite 6) 4,
                        sky_row ''A0620'' (Finite 1) (Finite 1) (Finite (- 4)) (- 4),
                        sky_row ''compstar1'' (Finite 4) (Finite 4) (Finite 6) 4]\<rparr>"

text \<open>
  One object whose second round names \<open>(5, 5)\<close>, a pixel off the star of \<open>sky_frame\<close>:
  the states after one and two frames.
\<close>

definition drift_state1 :: state where
  "drift_state1 =
     \<lparr>starting_positions = [[(1, 1), (4, 4)]], positions_col = 1, starting_positions_index = 1,
      aperture_table = [sky_row ''A0620'' (Finite (13 / 3)) (Finite 4) (Finite 6) 4]\<rparr>"

definition drift_state2 :: state where
  "drift_state2 =
     \<lparr>starting_positions = [[(1, 1), (4, 4)]], positions_col = 1, starting_positions_index = 1,
      aperture_table = [sky_row ''A0620'' (Finite (13 / 3)) (Finite 4) (Finite 6) 4,
                        sky_row ''A0620'' (Finite 4) (Finite 4) (Finite 6) 4]\<rparr>"

text \<open>A coordinate file in the documented format, ending with a newline.\<close>

definition coords_text :: string where
  "coords_text = ''A0620:(478, 565)\<newline>compstar1:(385, 535)\<newline>''"

text \<open>
  A 7 by 7 frame whose pixels are all 7, what is left of it once the median is taken off,
  and the state of a run with one object at \<open>(4, 4)\<close> after \<open>sky_frame\<close>.
\<close>

definition flat_sky_frame :: frame where
  "flat_sky_frame =
     \<lparr>data_wsky = [[7, 7, 7, 7, 7, 7, 7],
                   [7, 7, 7, 7, 7, 7, 7],
                   [7, 7, 7, 7, 7, 7, 7],
                   [7, 7, 7, 7, 7, 7, 7],
                   [7, 7, 7, 7, 7, 7, 7],
                   [7, 7, 7, 7, 7, 7, 7],
                   [7, 7, 7, 7, 7, 7, 7]],
      UTCSTART_mjd = 59215, EXPTIME = 30, fits_file = ''b.fits''\<rparr>"

definition zeros7 :: "real list list" where
  "zeros7 = [[0, 0, 0, 0, 0, 0, 0],
             [0, 0, 0, 0, 0, 0, 0],
             [0, 0, 0, 0, 0, 0, 0],
             [0, 0, 0, 0, 0, 0, 0],
             [0, 0, 0, 0, 0, 0, 0],
             [0, 0, 0, 0, 0, 0, 0],
             [0, 0, 0, 0, 0, 0, 0]]"

definition found_state1 :: state where
  "found_state1 =
     \<lparr>starting_positions = [[(4, 4)]], positions_col = 0, starting_positions_index = 0,
      aperture_table = [sky_row ''A0620'' (Finite 4) (Finite 4) (Finite 6) 4]\<rparr>"

section \<open>Facts about the tracker\<close>

lemmas tracker_defs =
  track_one_def clamp_position_def reindex_def centroid_def data_region_def py_slice2_def
  py_slice_def slice_bound_def x_sum_def y_sum_def np_sum_def row_moment_def fdiv_def
  peak_at_def py_trunc_def py_get_def find_objects_stats_def phot_entry_of_def

lemmas upt_unfold = upt_rec [of 0] upt_rec [of 1] upt_rec [of "Suc 0"] upt_rec [of "numeral k"] for k

lemma track_all_Inr:
  "track_all offset data ps = Inr rs \<Longrightarrow>
     length rs = length ps \<and> (\<forall>i<length ps. track_one offset data (ps ! i) = Inr (rs ! i))"
proof (induction ps arbitrary: rs)
  case Nil
  then show ?case by simp
next
  case (Cons p ps)
  from Cons.prems obtain r rs' where r: "track_one offset data p = Inr r"
    and rs': "track_all offset data ps = Inr rs'" and rs: "rs = r # rs'"
    by (auto split: sum.splits)
  from Cons.IH [OF rs'] r rs show ?case
    by (auto simp: nth_Cons split: nat.splits)
qed

lemma track_one_Inr:
  "track_one offset data p = Inr (p', cen, pk) \<Longrightarrow>
     clamp_position offset data p = Inr p' \<and> cen = reindex offset data p' \<and>
     peak_at data cen = Inr pk"
  by (auto simp: track_one_def Let_def split: sum.splits)

lemma peak_at_Inr_finite:
  "peak_at data cen = Inr pk \<Longrightarrow> \<exists>cx cy. cen = (Finite cx, Finite cy)"
  by (cases cen; cases "fst cen"; cases "snd cen") (auto simp: peak_at_def split: sum.splits)

lemma centroid_no_rows: "centroid [] = (NaN, NaN)"
  by (simp add: centroid_def x_sum_def y_sum_def np_sum_def fdiv_def)

lemma track_one_no_rows: "\<exists>e. track_one offset [] p = Inl e"
  by (auto simp: track_one_def Let_def reindex_def data_region_def py_slice2_def py_slice_def
      centroid_no_rows peak_at_def split: sum.splits)

lemma find_objects_stats_Inr:
  "find_objects_stats ap offset radius data ps = Inr (ps', tbl, peaks) \<Longrightarrow>
     \<exists>rs. track_all offset data ps = Inr rs \<and> rs \<noteq> [] \<and> ps' = map fst rs \<and>
          tbl = map (\<lambda>r. phot_entry_of ap radius data (fst (snd r))) rs \<and>
          peaks = map (\<lambda>r. snd (snd r)) rs"
  by (auto simp: find_objects_stats_def split: sum.splits if_splits)

lemma clamp_position_rows:
  "data \<noteq> [] \<Longrightarrow>
   clamp_position offset data (x, y) =
     Inr (if y - offset < 0 then (x, offset)
          else if int (length data) \<le> y + offset then (x, int (length data) - offset - 1)
          else if x - offset < 0 then (0, y)
          else if int (length (hd data)) \<le> x + offset
               then (int (length (hd data)) - offset - 1, y)
          else (x, y))"
  by (cases data) (simp_all add: clamp_position_def)

text \<open>
  What a successful call of \<^verbatim>\<open>find_objects_stats\<close> did for object \<open>i\<close>: the loop body ran
  on \<open>positions[i]\<close>, the position it left is the clamped one, and the centre in the table
  is the re-indexed centroid of the window cut at the clamped position.
\<close>

lemma find_objects_stats_nth:
  assumes "find_objects_stats ap offset radius data ps = Inr (ps', tbl, peaks)"
    and "i < length ps"
  shows "data \<noteq> []"
    and "length ps' = length ps" and "length tbl = length ps" and "length peaks = length ps"
    and "clamp_position offset data (ps ! i) = Inr (ps' ! i)"
    and "(fst (tbl ! i), fst (snd (tbl ! i))) = reindex offset data (ps' ! i)"
    and "snd (snd (tbl ! i)) = ap data radius (reindex offset data (ps' ! i))"
    and "peak_at data (reindex offset data (ps' ! i)) = Inr (peaks ! i)"
proof -
  from find_objects_stats_Inr [OF assms(1)] obtain rs where
    rs: "track_all offset data ps = Inr rs" and ps': "ps' = map fst rs"
    and tbl: "tbl = map (\<lambda>r. phot_entry_of ap radius data (fst (snd r))) rs"
    and peaks: "peaks = map (\<lambda>r. snd (snd r)) rs"
    by blast
  from track_all_Inr [OF rs] assms(2) have len: "length rs = length ps"
    and one: "track_one offset data (ps ! i) = Inr (rs ! i)"
    by simp_all
  show "data \<noteq> []"
    using one track_one_no_rows [of offset "ps ! i"] by auto
  show "length ps' = length ps" "length tbl = length ps" "length peaks = length ps"
    by (simp_all add: ps' tbl peaks len)
  obtain p' cen pk where r: "rs ! i = (p', cen, pk)"
    by (cases "rs ! i") auto
  from track_one_Inr [OF one [unfolded r]] have c: "clamp_position offset data (ps ! i) = Inr p'"
    and cen: "cen = reindex offset data p'" and pk: "peak_at data cen = Inr pk"
    by blast+
  have i: "i < length rs" using assms(2) len by simp
  show "clamp_position offset data (ps ! i) = Inr (ps' ! i)"
    using c i r by (simp add: ps')
  show "(fst (tbl ! i), fst (snd (tbl ! i))) = reindex offset data (ps' ! i)"
    using cen i r by (simp add: ps' tbl phot_entry_of_def)
  show "snd (snd (tbl ! i)) = ap data radius (reindex offset data (ps' ! i))"
    using cen i r by (simp add: ps' tbl phot_entry_of_def)
  show "peak_at data (reindex offset data (ps' ! i)) = Inr (peaks ! i)"
    using cen pk i r by (simp add: ps' peaks)
qed

lemma find_objects_stats_lengths:
  assumes "find_objects_stats ap offset radius data ps = Inr (ps', tbl, peaks)"
  shows "ps \<noteq> []" and "length ps' = length ps" and "length tbl = length ps"
    and "length peaks = length ps"
  using assms by (auto dest!: find_objects_stats_Inr track_all_Inr)

lemma find_objects_stats_finite:
  assumes "find_objects_stats ap offset radius data ps = Inr (ps', tbl, peaks)"
  shows "\<forall>e\<in>set tbl. \<exists>cx cy s. e = (Finite cx, Finite cy, s)"
proof
  fix e assume "e \<in> set tbl"
  then obtain i where i: "i < length tbl" and e: "e = tbl ! i"
    by (auto simp: in_set_conv_nth)
  from assms have len: "length tbl = length ps"
    by (auto dest!: find_objects_stats_Inr track_all_Inr)
  note f = find_objects_stats_nth [OF assms, of i]
  from i len have "i < length ps" by simp
  from f(6) [OF this] f(8) [OF this] peak_at_Inr_finite
  obtain cx cy where "(fst e, fst (snd e)) = (Finite cx, Finite cy)"
    unfolding e by metis
  then show "\<exists>cx cy s. e = (Finite cx, Finite cy, s)"
    by (cases e) auto
qed

lemma track_all_Inl:
  "p \<in> set ps \<Longrightarrow> track_one offset data p = Inl e \<Longrightarrow> \<exists>e'. track_all offset data ps = Inl e'"
  by (induction ps) (auto split: sum.splits)

lemma find_objects_stats_Inl:
  "p \<in> set ps \<Longrightarrow> track_one offset data p = Inl e \<Longrightarrow>
     \<exists>e'. find_objects_stats ap offset radius data ps = Inl e'"
  using track_all_Inl [of p ps offset data e] by (auto simp: find_objects_stats_def)

subsection \<open>A window whose sum is zero\<close>

lemma centroid_zero_sum:
  "np_sum arr = 0 \<Longrightarrow>
     snd (centroid arr) = (if y_sum arr = 0 then NaN else if 0 < y_sum arr then PInf else NInf)"
  by (simp add: centroid_def fdiv_def)

lemma centroid_zero_sum_fst:
  "np_sum arr = 0 \<Longrightarrow>
     fst (centroid arr) = (if x_sum arr = 0 then NaN else if 0 < x_sum arr then PInf else NInf)"
  by (simp add: centroid_def fdiv_def)

lemma track_one_zero_sum:
  assumes "clamp_position offset data p = Inr p'"
    and "np_sum (data_region offset data p') = 0"
  shows "track_one offset data p =
           Inl (if y_sum (data_region offset data p') = 0 then ValueError else OverflowError)"
  using assms
  by (simp add: track_one_def reindex_def Let_def peak_at_def centroid_zero_sum)

lemma empty_columns_centroid:
  assumes "\<forall>row\<in>set arr. row = []"
  shows "np_sum arr = 0" and "y_sum arr = 0"
proof -
  from assms have "concat arr = []" by simp
  then show "np_sum arr = 0" unfolding np_sum_def by (simp only: sum_list.Nil)
  have "map (\<lambda>i. sum_list (arr ! i) * real i) [0..<length arr] = map (\<lambda>i. 0) [0..<length arr]"
  proof (intro map_cong refl)
    fix i assume "i \<in> set [0..<length arr]"
    then have "arr ! i \<in> set arr" by simp
    with assms have "arr ! i = []" by blast
    then show "sum_list (arr ! i) * real i = 0" by simp
  qed
  then have "y_sum arr = sum_list (map (\<lambda>i. 0) [0..<length arr])"
    unfolding y_sum_def by (rule arg_cong)
  then show "y_sum arr = 0" by simp
qed

section \<open>Facts about the per-frame loop\<close>

lemma length_column [simp]: "length (column k tbl) = length tbl"
  by (simp add: column_def)

lemma length_set_column: "length ps = length tbl \<Longrightarrow> length (set_column k ps tbl) = length tbl"
  by (simp add: set_column_def)

lemma nth_set_column:
  "length ps = length tbl \<Longrightarrow> i < length tbl \<Longrightarrow> set_column k ps tbl ! i = (tbl ! i)[k := ps ! i]"
  by (simp add: set_column_def)

lemma column_set_column_other:
  "length ps = length tbl \<Longrightarrow> j \<noteq> k \<Longrightarrow> column j (set_column k ps tbl) = column j tbl"
  by (rule nth_equalityI) (simp_all add: column_def set_column_def)

lemma column_set_column_same:
  "length ps = length tbl \<Longrightarrow> \<forall>row\<in>set tbl. k < length row \<Longrightarrow>
     column k (set_column k ps tbl) = ps"
  by (rule nth_equalityI) (simp_all add: column_def set_column_def)

lemma map_length_set_column:
  "length ps = length tbl \<Longrightarrow> map length (set_column k ps tbl) = map length tbl"
  by (rule nth_equalityI) (simp_all add: set_column_def)

lemma hd_set_column:
  "tbl \<noteq> [] \<Longrightarrow> length ps = length tbl \<Longrightarrow>
     length (hd (set_column k ps tbl)) = length (hd tbl)"
  by (cases tbl; cases ps) (simp_all add: set_column_def)

lemma truncated_centroids_Inr:
  "\<forall>e\<in>set tbl. \<exists>cx cy s. e = (Finite cx, Finite cy, s) \<Longrightarrow>
     truncated_centroids tbl = Inr (map (\<lambda>e. (case e of (Finite cx, Finite cy, s) \<Rightarrow> (py_trunc cx, py_trunc cy))) tbl)"
  by (induction tbl) auto

lemma truncated_centroids_length:
  "truncated_centroids tbl = Inr ps \<Longrightarrow> length ps = length tbl"
  by (induction tbl arbitrary: ps) (auto split: sum.splits)

lemma truncated_centroids_nth:
  "truncated_centroids tbl = Inr ps \<Longrightarrow> i < length tbl \<Longrightarrow>
     py_int (fst (tbl ! i)) = Inr (fst (ps ! i)) \<and> py_int (fst (snd (tbl ! i))) = Inr (snd (ps ! i))"
proof (induction tbl arbitrary: ps i)
  case Nil
  then show ?case by simp
next
  case (Cons e es)
  then show ?case
    by (cases i) (auto split: sum.splits)
qed

lemma truncated_centroids_map:
  assumes "truncated_centroids tbl = Inr ps"
  shows "map (\<lambda>e. (py_int (fst e), py_int (fst (snd e)))) tbl =
         map (\<lambda>p. (Inr (fst p), Inr (snd p))) ps"
proof (rule nth_equalityI)
  show "length (map (\<lambda>e. (py_int (fst e), py_int (fst (snd e)))) tbl) =
        length (map (\<lambda>p. (Inr (fst p), Inr (snd p))) ps)"
    using truncated_centroids_length [OF assms] by simp
next
  fix i assume "i < length (map (\<lambda>e. (py_int (fst e), py_int (fst (snd e)))) tbl)"
  then have i: "i < length tbl" by simp
  with truncated_centroids_length [OF assms] have "i < length ps" by simp
  with i truncated_centroids_nth [OF assms i]
  show "map (\<lambda>e. (py_int (fst e), py_int (fst (snd e)))) tbl ! i =
        map (\<lambda>p. (Inr (fst p), Inr (snd p))) ps ! i"
    by simp
qed

lemma find_objects_stats_truncated:
  assumes "find_objects_stats ap offset radius data ps = Inr (ps', tbl, peaks)"
  shows "\<exists>qs. truncated_centroids tbl = Inr qs"
  using truncated_centroids_Inr [OF find_objects_stats_finite [OF assms]] by blast

lemma make_row_centres:
  assumes "length names = length tbl" and "length peaks = length tbl"
  shows "map (\<lambda>r. (py_int (xcenter r), py_int (ycenter r)))
           (map (make_row radius skybkg fr) (zip names (zip tbl peaks)))
         = map (\<lambda>e. (py_int (fst e), py_int (fst (snd e)))) tbl"
  using assms by (intro nth_equalityI) (simp_all add: make_row_def Let_def)

lemma write_positions_simps [simp]:
  "positions_col (write_positions ps st) = positions_col st"
  "starting_positions_index (write_positions ps st) = starting_positions_index st"
  "aperture_table (write_positions ps st) = aperture_table st"
  "starting_positions (write_positions ps st) =
     set_column (positions_col st) ps (starting_positions st)"
  by (simp_all add: write_positions_def)

lemma process_frame_Inr:
  assumes "process_frame ap offset radius names st fr = Inr st'"
  obtains ps1 tbl1 peaks1 tbl peaks st2 where
    "find_objects_stats ap offset radius
       (subtract_sky (median (concat (data_wsky fr))) (data_wsky fr)) (positions st)
       = Inr (ps1, tbl1, peaks1)"
    and "any_negative tbl1 \<Longrightarrow>
       retry ap offset radius (subtract_sky (median (concat (data_wsky fr))) (data_wsky fr))
         tbl1 peaks1 (write_positions ps1 st) = Inr (tbl, peaks, st2)"
    and "\<not> any_negative tbl1 \<Longrightarrow> tbl = tbl1 \<and> peaks = peaks1 \<and> st2 = write_positions ps1 st"
    and "record_frame names radius (median (concat (data_wsky fr))) fr tbl peaks st2 = Inr st'"
  using assms
  by (auto simp: process_frame_def Let_def split: sum.splits prod.splits if_splits)

lemma record_frame_Inr:
  assumes "record_frame names radius skybkg fr tbl peaks st = Inr st'"
  obtains ps where "truncated_centroids tbl = Inr ps" and "length names = length tbl"
    and "aperture_table st' =
           aperture_table st @ map (make_row radius skybkg fr) (zip names (zip tbl peaks))"
    and "starting_positions st' = set_column (positions_col st) ps (starting_positions st)"
    and "positions_col st' = positions_col st"
    and "starting_positions_index st' = starting_positions_index st"
  using assms
  by (auto simp: record_frame_def make_rows_def write_positions_def split: sum.splits if_splits)

lemma record_frame_eval:
  assumes "length names = length tbl" and "truncated_centroids tbl = Inr ps"
  shows "record_frame names radius skybkg fr tbl peaks st =
     Inr (write_positions ps
            (st\<lparr>aperture_table := aperture_table st @
                   map (make_row radius skybkg fr) (zip names (zip tbl peaks))\<rparr>))"
  using assms by (simp add: record_frame_def make_rows_def)

lemma retry_Inr:
  assumes "retry ap offset radius data tbl peaks st = Inr (tbl', peaks', st')"
  shows "starting_positions_index st' = starting_positions_index st + 1"
    and "aperture_table st' = aperture_table st"
    and "starting_positions st \<noteq> []"
    and "starting_positions_index st + 1 < length (hd (starting_positions st)) \<Longrightarrow>
           positions_col st' = starting_positions_index st + 1 \<and>
           (\<exists>ps2. find_objects_stats ap offset radius data
                     (column (starting_positions_index st + 1) (starting_positions st))
                   = Inr (ps2, tbl', peaks') \<and>
                  starting_positions st' =
                    set_column (starting_positions_index st + 1) ps2 (starting_positions st))"
    and "\<not> starting_positions_index st + 1 < length (hd (starting_positions st)) \<Longrightarrow>
           tbl' = tbl \<and> peaks' = peaks \<and> positions_col st' = positions_col st \<and>
           starting_positions st' = starting_positions st"
  using assms
  by (auto simp: retry_def Let_def positions_def write_positions_def
      split: sum.splits prod.splits if_splits list.splits)

lemma retry_unfold:
  assumes "starting_positions st \<noteq> []"
  shows "retry ap offset radius data tbl peaks st =
     (if starting_positions_index st + 1 < length (hd (starting_positions st)) then
        (case find_objects_stats ap offset radius data
                (column (starting_positions_index st + 1) (starting_positions st)) of
           Inl e \<Rightarrow> Inl e
         | Inr (ps2, tbl2, peaks2) \<Rightarrow>
             Inr (tbl2, peaks2,
                  write_positions ps2
                    (st\<lparr>starting_positions_index := starting_positions_index st + 1,
                        positions_col := starting_positions_index st + 1\<rparr>)))
      else Inr (tbl, peaks, st\<lparr>starting_positions_index := starting_positions_index st + 1\<rparr>))"
  using assms
  by (cases "starting_positions st")
    (simp_all add: retry_def Let_def positions_def split: sum.splits prod.splits)

lemma process_frame_index:
  assumes "process_frame ap offset radius names st fr = Inr st'"
    and "find_objects_stats ap offset radius
           (subtract_sky (median (concat (data_wsky fr))) (data_wsky fr)) (positions st)
         = Inr (ps1, tbl1, peaks1)"
  shows "starting_positions_index st' =
           (if any_negative tbl1 then starting_positions_index st + 1
            else starting_positions_index st)"
proof -
  from assms(1) obtain ps1' tbl1' peaks1' tbl peaks st2 where
    first: "find_objects_stats ap offset radius
       (subtract_sky (median (concat (data_wsky fr))) (data_wsky fr)) (positions st)
       = Inr (ps1', tbl1', peaks1')"
    and neg: "any_negative tbl1' \<Longrightarrow>
       retry ap offset radius (subtract_sky (median (concat (data_wsky fr))) (data_wsky fr))
         tbl1' peaks1' (write_positions ps1' st) = Inr (tbl, peaks, st2)"
    and pos: "\<not> any_negative tbl1' \<Longrightarrow> tbl = tbl1' \<and> peaks = peaks1' \<and> st2 = write_positions ps1' st"
    and rec: "record_frame names radius (median (concat (data_wsky fr))) fr tbl peaks st2 = Inr st'"
    by (rule process_frame_Inr) blast
  from first assms(2) have same: "tbl1' = tbl1" by simp
  from rec have idx: "starting_positions_index st' = starting_positions_index st2"
    by (rule record_frame_Inr) blast
  show ?thesis
  proof (cases "any_negative tbl1")
    case True
    with neg same retry_Inr(1) [of ap offset radius _ tbl1' peaks1' "write_positions ps1' st" tbl peaks st2]
    show ?thesis by (simp add: idx)
  next
    case False
    with pos same show ?thesis by (simp add: idx)
  qed
qed

lemma process_frame_index_mono:
  assumes "process_frame ap offset radius names st fr = Inr st'"
  shows "starting_positions_index st \<le> starting_positions_index st'"
proof -
  from assms obtain ps1 tbl1 peaks1 where
    "find_objects_stats ap offset radius
       (subtract_sky (median (concat (data_wsky fr))) (data_wsky fr)) (positions st)
       = Inr (ps1, tbl1, peaks1)"
    by (rule process_frame_Inr) blast
  from process_frame_index [OF assms this] show ?thesis by simp
qed

lemma process_frame_rows:
  assumes "process_frame ap offset radius names st fr = Inr st'"
  shows "\<exists>rows. aperture_table st' = aperture_table st @ rows \<and> map name rows = names \<and>
           map filename rows = replicate (length names) (fits_file fr)"
    and "length names = length (starting_positions st)"
    and "length (starting_positions st') = length (starting_positions st)"
proof -
  from assms(1) obtain ps1 tbl1 peaks1 tbl peaks st2 where
    first: "find_objects_stats ap offset radius
       (subtract_sky (median (concat (data_wsky fr))) (data_wsky fr)) (positions st)
       = Inr (ps1, tbl1, peaks1)"
    and neg: "any_negative tbl1 \<Longrightarrow>
       retry ap offset radius (subtract_sky (median (concat (data_wsky fr))) (data_wsky fr))
         tbl1 peaks1 (write_positions ps1 st) = Inr (tbl, peaks, st2)"
    and pos: "\<not> any_negative tbl1 \<Longrightarrow> tbl = tbl1 \<and> peaks = peaks1 \<and> st2 = write_positions ps1 st"
    and rec: "record_frame names radius (median (concat (data_wsky fr))) fr tbl peaks st2 = Inr st'"
    by (rule process_frame_Inr) blast
  note l1 = find_objects_stats_lengths [OF first]
  have len1: "length ps1 = length (starting_positions st)"
    "length tbl1 = length (starting_positions st)" "length peaks1 = length (starting_positions st)"
    using l1 by (simp_all add: positions_def)
  have st1: "length (starting_positions (write_positions ps1 st)) = length (starting_positions st)"
    using len1 by (simp add: length_set_column)
  have st2: "length (starting_positions st2) = length (starting_positions st)
      \<and> length tbl = length (starting_positions st) \<and> length peaks = length (starting_positions st)
      \<and> aperture_table st2 = aperture_table st"
  proof (cases "any_negative tbl1")
    case False
    with pos st1 len1 show ?thesis by simp
  next
    case True
    note r = retry_Inr [OF neg [OF True]]
    show ?thesis
    proof (cases "starting_positions_index (write_positions ps1 st) + 1
                    < length (hd (starting_positions (write_positions ps1 st)))")
      case False
      from r(5) [OF False] r(2) st1 len1 show ?thesis by simp
    next
      case True
      from r(4) [OF True] obtain ps2 where
        second: "find_objects_stats ap offset radius
            (subtract_sky (median (concat (data_wsky fr))) (data_wsky fr))
            (column (starting_positions_index (write_positions ps1 st) + 1)
               (starting_positions (write_positions ps1 st))) = Inr (ps2, tbl, peaks)"
        and sp2: "starting_positions st2 =
            set_column (starting_positions_index (write_positions ps1 st) + 1) ps2
              (starting_positions (write_positions ps1 st))"
        by blast
      note l2 = find_objects_stats_lengths [OF second]
      from l2 st1 have "length ps2 = length (starting_positions (write_positions ps1 st))"
        by simp
      with sp2 l2 st1 r(2) show ?thesis
        by (simp add: length_set_column)
    qed
  qed
  from rec obtain ps where tc: "truncated_centroids tbl = Inr ps"
    and nm: "length names = length tbl"
    and tab: "aperture_table st' =
           aperture_table st2 @ map (make_row radius (median (concat (data_wsky fr))) fr)
             (zip names (zip tbl peaks))"
    and sp': "starting_positions st' = set_column (positions_col st2) ps (starting_positions st2)"
    by (rule record_frame_Inr) blast
  from nm st2 show "length names = length (starting_positions st)" by simp
  from truncated_centroids_length [OF tc] st2 sp'
  show "length (starting_positions st') = length (starting_positions st)"
    by (simp add: length_set_column)
  have "map name (map (make_row radius (median (concat (data_wsky fr))) fr)
             (zip names (zip tbl peaks))) = names"
    using nm st2 by (simp add: make_row_def Let_def comp_def map_fst_zip [unfolded comp_def])
  moreover have "map filename (map (make_row radius (median (concat (data_wsky fr))) fr)
             (zip names (zip tbl peaks))) = replicate (length names) (fits_file fr)"
    using nm st2 by (simp add: make_row_def Let_def comp_def map_replicate_const)
  ultimately show "\<exists>rows. aperture_table st' = aperture_table st @ rows \<and> map name rows = names \<and>
           map filename rows = replicate (length names) (fits_file fr)"
    using tab st2 by simp
qed

lemma run_append:
  "run ap offset radius names st (frs1 @ frs2) =
     (case run ap offset radius names st frs1 of
        Inl e \<Rightarrow> Inl e
      | Inr st1 \<Rightarrow> run ap offset radius names st1 frs2)"
  by (induction frs1 arbitrary: st) (auto split: sum.splits)

lemma run_index_mono:
  "run ap offset radius names st frs = Inr st' \<Longrightarrow>
     starting_positions_index st \<le> starting_positions_index st'"
proof (induction frs arbitrary: st)
  case Nil
  then show ?case by simp
next
  case (Cons fr frs)
  from Cons.prems obtain st1 where s1: "process_frame ap offset radius names st fr = Inr st1"
    and r: "run ap offset radius names st1 frs = Inr st'"
    by (auto split: sum.splits)
  from process_frame_index_mono [OF s1] Cons.IH [OF r] show ?case by simp
qed

text \<open>
  The detector of a negative sum, spelled out on the aperture sums of the table: some
  row holds a finite sum below zero, or minus infinity.
\<close>

lemma any_negative_iff:
  "any_negative tbl \<longleftrightarrow>
     (\<exists>e\<in>set tbl. snd (snd e) = NInf \<or> (\<exists>r. snd (snd e) = Finite r \<and> r < 0))"
proof -
  have "fneg f \<longleftrightarrow> f = NInf \<or> (\<exists>r. f = Finite r \<and> r < 0)" for f
    by (cases f) simp_all
  then show ?thesis
    by (simp add: any_negative_def list_ex_iff)
qed

text \<open>The frame body by cases on the first pass.\<close>

lemma process_frame_cases:
  assumes first: "find_objects_stats ap offset radius data (positions st) = Inr (ps1, tbl1, peaks1)"
    and data: "data = subtract_sky (median (concat (data_wsky fr))) (data_wsky fr)"
    and names: "length names = length (starting_positions st)"
    and view: "positions_col st \<le> starting_positions_index st"
  shows "(\<not> any_negative tbl1 \<longrightarrow>
            (\<exists>st'. process_frame ap offset radius names st fr = Inr st' \<and>
               starting_positions_index st' = starting_positions_index st \<and>
               aperture_table st' = aperture_table st @
                 map (make_row radius (median (concat (data_wsky fr))) fr)
                   (zip names (zip tbl1 peaks1))))
       \<and> (any_negative tbl1 \<and>
            starting_positions_index st + 1 < length (hd (starting_positions st)) \<longrightarrow>
            (case find_objects_stats ap offset radius data
                    (column (starting_positions_index st + 1) (starting_positions st)) of
               Inl e \<Rightarrow> process_frame ap offset radius names st fr = Inl e
             | Inr (ps2, tbl2, peaks2) \<Rightarrow>
                 (\<exists>st'. process_frame ap offset radius names st fr = Inr st' \<and>
                    starting_positions_index st' = starting_positions_index st + 1 \<and>
                    aperture_table st' = aperture_table st @
                      map (make_row radius (median (concat (data_wsky fr))) fr)
                        (zip names (zip tbl2 peaks2)))))
       \<and> (any_negative tbl1 \<and>
            \<not> starting_positions_index st + 1 < length (hd (starting_positions st)) \<longrightarrow>
            (\<exists>st'. process_frame ap offset radius names st fr = Inr st' \<and>
               starting_positions_index st' = starting_positions_index st + 1 \<and>
               aperture_table st' = aperture_table st @
                 map (make_row radius (median (concat (data_wsky fr))) fr)
                   (zip names (zip tbl1 peaks1))))"
proof -
  note l1 = find_objects_stats_lengths [OF first]
  have len1: "length ps1 = length (starting_positions st)"
    "length tbl1 = length (starting_positions st)"
    using l1 by (simp_all add: positions_def)
  from l1(1) have sp: "starting_positions st \<noteq> []"
    by (auto simp: positions_def column_def)
  let ?st1 = "write_positions ps1 st"
  have sp1_len: "length (starting_positions ?st1) = length (starting_positions st)"
    using len1 by (simp add: length_set_column)
  with sp have sp1_ne: "starting_positions ?st1 \<noteq> []"
    by (metis length_0_conv)
  have sp1_hd: "length (hd (starting_positions ?st1)) = length (hd (starting_positions st))"
    using sp len1 by (simp add: hd_set_column)
  have sp1_col: "column (starting_positions_index st + 1) (starting_positions ?st1)
       = column (starting_positions_index st + 1) (starting_positions st)"
    using len1 view by (simp add: column_set_column_other)
  from find_objects_stats_truncated [OF first] obtain qs1
    where qs1: "truncated_centroids tbl1 = Inr qs1" by blast
  have n1: "length names = length tbl1" using names len1 by simp
  have A: "\<not> any_negative tbl1 \<longrightarrow>
            (\<exists>st'. process_frame ap offset radius names st fr = Inr st' \<and>
               starting_positions_index st' = starting_positions_index st \<and>
               aperture_table st' = aperture_table st @
                 map (make_row radius (median (concat (data_wsky fr))) fr)
                   (zip names (zip tbl1 peaks1)))"
    using first
    by (simp add: process_frame_def Let_def data [symmetric] record_frame_eval [OF n1 qs1])
  have C: "any_negative tbl1 \<and>
            \<not> starting_positions_index st + 1 < length (hd (starting_positions st)) \<longrightarrow>
            (\<exists>st'. process_frame ap offset radius names st fr = Inr st' \<and>
               starting_positions_index st' = starting_positions_index st + 1 \<and>
               aperture_table st' = aperture_table st @
                 map (make_row radius (median (concat (data_wsky fr))) fr)
                   (zip names (zip tbl1 peaks1)))"
    using first sp1_hd
    by (simp add: process_frame_def Let_def data [symmetric] retry_unfold [OF sp1_ne]
        record_frame_eval [OF n1 qs1])
  have B: "any_negative tbl1 \<and>
            starting_positions_index st + 1 < length (hd (starting_positions st)) \<longrightarrow>
            (case find_objects_stats ap offset radius data
                    (column (starting_positions_index st + 1) (starting_positions st)) of
               Inl e \<Rightarrow> process_frame ap offset radius names st fr = Inl e
             | Inr (ps2, tbl2, peaks2) \<Rightarrow>
                 (\<exists>st'. process_frame ap offset radius names st fr = Inr st' \<and>
                    starting_positions_index st' = starting_positions_index st + 1 \<and>
                    aperture_table st' = aperture_table st @
                      map (make_row radius (median (concat (data_wsky fr))) fr)
                        (zip names (zip tbl2 peaks2))))"
  proof (intro impI, elim conjE)
    assume neg: "any_negative tbl1"
      and more: "starting_positions_index st + 1 < length (hd (starting_positions st))"
    show "case find_objects_stats ap offset radius data
                    (column (starting_positions_index st + 1) (starting_positions st)) of
               Inl e \<Rightarrow> process_frame ap offset radius names st fr = Inl e
             | Inr (ps2, tbl2, peaks2) \<Rightarrow>
                 (\<exists>st'. process_frame ap offset radius names st fr = Inr st' \<and>
                    starting_positions_index st' = starting_positions_index st + 1 \<and>
                    aperture_table st' = aperture_table st @
                      map (make_row radius (median (concat (data_wsky fr))) fr)
                        (zip names (zip tbl2 peaks2)))"
    proof (cases "find_objects_stats ap offset radius data
                    (column (starting_positions_index st + 1) (starting_positions st))")
      case (Inl e)
      with first neg more sp1_hd sp1_col show ?thesis
        by (simp add: process_frame_def Let_def data [symmetric] retry_unfold [OF sp1_ne])
    next
      case (Inr r)
      obtain ps2 tbl2 peaks2 where r: "r = (ps2, tbl2, peaks2)" by (cases r) auto
      note second = Inr [unfolded r]
      from find_objects_stats_truncated [OF second] obtain qs2
        where qs2: "truncated_centroids tbl2 = Inr qs2" by blast
      from find_objects_stats_lengths [OF second] names
      have n2: "length names = length tbl2" by simp
      from first neg more sp1_hd sp1_col second show ?thesis
        by (simp add: process_frame_def Let_def data [symmetric] retry_unfold [OF sp1_ne]
            record_frame_eval [OF n2 qs2])
    qed
  qed
  from A B C show ?thesis by blast
qed

text \<open>A run that completes has stacked one group of rows per frame.\<close>

lemma run_rows:
  assumes "run ap offset radius names st frs = Inr st'"
  shows "\<exists>groups. aperture_table st' = aperture_table st @ concat groups
           \<and> length groups = length frs
           \<and> (\<forall>k<length frs.
                 length (groups ! k) = length (starting_positions st) \<and>
                 map name (groups ! k) = names \<and>
                 map filename (groups ! k) = replicate (length names) (fits_file (frs ! k)))"
  using assms
proof (induction frs arbitrary: st)
  case Nil
  then show ?case by simp
next
  case (Cons fr frs)
  from Cons.prems obtain st1 where s1: "process_frame ap offset radius names st fr = Inr st1"
    and r: "run ap offset radius names st1 frs = Inr st'"
    by (auto split: sum.splits)
  note step = process_frame_rows [OF s1]
  from step(1) obtain rows where rows: "aperture_table st1 = aperture_table st @ rows"
    "map name rows = names" "map filename rows = replicate (length names) (fits_file fr)"
    by blast
  from rows(2) step(2) have lrows: "length rows = length (starting_positions st)"
    by (metis length_map)
  from Cons.IH [OF r] obtain groups where g: "aperture_table st' = aperture_table st1 @ concat groups"
    "length groups = length frs"
    "\<forall>k<length frs. length (groups ! k) = length (starting_positions st1) \<and>
                 map name (groups ! k) = names \<and>
                 map filename (groups ! k) = replicate (length names) (fits_file (frs ! k))"
    by blast
  have "aperture_table st' = aperture_table st @ concat (rows # groups)"
    using rows(1) g(1) by simp
  moreover have "length (rows # groups) = length (fr # frs)"
    using g(2) by simp
  moreover have "\<forall>k<length (fr # frs).
                 length ((rows # groups) ! k) = length (starting_positions st) \<and>
                 map name ((rows # groups) ! k) = names \<and>
                 map filename ((rows # groups) ! k) =
                   replicate (length names) (fits_file ((fr # frs) ! k))"
    using rows(2,3) lrows g(3) step(3) by (auto simp: nth_Cons split: nat.splits)
  ultimately show ?case by blast
qed

text \<open>An exception in a frame is the result of the run, and a run fails in no other way.\<close>

lemma run_abort:
  assumes "run ap offset radius names st frs1 = Inr st1"
    and "process_frame ap offset radius names st1 fr = Inl e"
  shows "run ap offset radius names st (frs1 @ fr # frs2) = Inl e"
  using assms by (simp add: run_append)

lemma run_Inl:
  "run ap offset radius names st frs = Inl e \<Longrightarrow>
     \<exists>frs1 fr frs2 st1. frs = frs1 @ fr # frs2 \<and>
        run ap offset radius names st frs1 = Inr st1 \<and>
        process_frame ap offset radius names st1 fr = Inl e"
proof (induction frs arbitrary: st)
  case Nil
  then show ?case by simp
next
  case (Cons f fs)
  show ?case
  proof (cases "process_frame ap offset radius names st f")
    case (Inl e')
    with Cons.prems have "e' = e" by simp
    with Inl have "f # fs = [] @ f # fs \<and> run ap offset radius names st [] = Inr st \<and>
        process_frame ap offset radius names st f = Inl e"
      by simp
    then show ?thesis by blast
  next
    case (Inr s1)
    with Cons.prems have "run ap offset radius names s1 fs = Inl e" by simp
    from Cons.IH [OF this] obtain frs1 fr frs2 st1 where
      "fs = frs1 @ fr # frs2" "run ap offset radius names s1 frs1 = Inr st1"
      "process_frame ap offset radius names st1 fr = Inl e"
      by blast
    with Inr have "f # fs = (f # frs1) @ fr # frs2 \<and>
        run ap offset radius names st (f # frs1) = Inr st1 \<and>
        process_frame ap offset radius names st1 fr = Inl e"
      by simp
    then show ?thesis by blast
  qed
qed

subsection \<open>The view of the hypothesis table\<close>

lemma rectangular_rows:
  "rectangular tbl \<longleftrightarrow> (\<forall>row\<in>set tbl. length row = length (hd tbl))"
  by (simp add: rectangular_def list_all_iff)

lemma hd_dims: "tbl \<noteq> [] \<Longrightarrow> length (hd tbl) = hd (map length tbl)"
  by (cases tbl) simp_all

lemma same_shape:
  fixes tbl tbl' :: "'a list list"
  assumes "map length tbl' = map length tbl"
  shows "(tbl' = []) = (tbl = [])"
    and "length (hd tbl') = length (hd tbl)"
    and "rectangular tbl' = rectangular tbl"
    and "length tbl' = length tbl"
proof -
  from assms show e: "(tbl' = []) = (tbl = [])"
    by (metis map_is_Nil_conv)
  show h: "length (hd tbl') = length (hd tbl)"
  proof (cases "tbl = []")
    case True
    with e show ?thesis by simp
  next
    case False
    with e have "tbl' \<noteq> []" by simp
    with False assms show ?thesis by (simp add: hd_dims)
  qed
  have "(\<forall>row\<in>set tbl'. length row = length (hd tbl)) = (\<forall>n\<in>set (map length tbl'). n = length (hd tbl))"
    by simp
  also have "\<dots> = (\<forall>n\<in>set (map length tbl). n = length (hd tbl))"
    by (simp only: assms)
  also have "\<dots> = (\<forall>row\<in>set tbl. length row = length (hd tbl))"
    by simp
  finally show "rectangular tbl' = rectangular tbl"
    by (simp only: rectangular_rows h)
  from assms show "length tbl' = length tbl"
    by (metis length_map)
qed

lemma table_ok_rows:
  assumes "table_ok st"
  shows "\<forall>row\<in>set (starting_positions st). length row = length (hd (starting_positions st))"
    and "positions_col st < length (hd (starting_positions st))"
    and "positions_col st \<le> starting_positions_index st"
    and "starting_positions st \<noteq> []"
proof -
  from assms have r: "rectangular (starting_positions st)" and ne: "hd (starting_positions st) \<noteq> []"
    and c: "positions_col st =
        min (starting_positions_index st) (length (hd (starting_positions st)) - 1)"
    and "starting_positions st \<noteq> []"
    by (simp_all add: table_ok_def)
  then show "starting_positions st \<noteq> []" by simp
  from r show "\<forall>row\<in>set (starting_positions st). length row = length (hd (starting_positions st))"
    by (simp only: rectangular_rows)
  from ne have "0 < length (hd (starting_positions st))" by simp
  with c show "positions_col st < length (hd (starting_positions st))"
    and "positions_col st \<le> starting_positions_index st"
    by linarith+
qed

lemma table_ok_initial:
  "sp \<noteq> [] \<Longrightarrow> hd sp \<noteq> [] \<Longrightarrow> rectangular sp \<Longrightarrow> table_ok (initial_state sp)"
  by (simp add: table_ok_def initial_state_def)

lemma process_frame_shape:
  assumes ok: "table_ok st"
    and step: "process_frame ap offset radius names st fr = Inr st'"
  obtains tbl peaks ps sp2 where
    "truncated_centroids tbl = Inr ps" and "length names = length tbl"
    and "length peaks = length tbl"
    and "aperture_table st' = aperture_table st @
           map (make_row radius (median (concat (data_wsky fr))) fr) (zip names (zip tbl peaks))"
    and "starting_positions st' = set_column (positions_col st') ps sp2"
    and "map length sp2 = map length (starting_positions st)"
    and "length ps = length sp2"
    and "\<forall>k. positions_col st' < k \<longrightarrow> column k sp2 = column k (starting_positions st)"
    and "positions_col st' =
           min (starting_positions_index st') (length (hd (starting_positions st)) - 1)"
proof -
  note rows = table_ok_rows [OF ok]
  from ok have col: "positions_col st =
        min (starting_positions_index st) (length (hd (starting_positions st)) - 1)"
    by (simp add: table_ok_def)
  from step obtain ps1 tbl1 peaks1 tbl peaks st2 where
    first: "find_objects_stats ap offset radius
       (subtract_sky (median (concat (data_wsky fr))) (data_wsky fr)) (positions st)
       = Inr (ps1, tbl1, peaks1)"
    and neg: "any_negative tbl1 \<Longrightarrow>
       retry ap offset radius (subtract_sky (median (concat (data_wsky fr))) (data_wsky fr))
         tbl1 peaks1 (write_positions ps1 st) = Inr (tbl, peaks, st2)"
    and pos: "\<not> any_negative tbl1 \<Longrightarrow> tbl = tbl1 \<and> peaks = peaks1 \<and> st2 = write_positions ps1 st"
    and rec: "record_frame names radius (median (concat (data_wsky fr))) fr tbl peaks st2 = Inr st'"
    by (rule process_frame_Inr) blast
  note l1 = find_objects_stats_lengths [OF first]
  have len1: "length ps1 = length (starting_positions st)"
    "length tbl1 = length (starting_positions st)" "length peaks1 = length (starting_positions st)"
    using l1 by (simp_all add: positions_def)
  let ?st1 = "write_positions ps1 st"
  have dims1: "map length (starting_positions ?st1) = map length (starting_positions st)"
    using len1 by (simp add: map_length_set_column)
  note shape1 = same_shape [OF dims1]
  have other1: "\<forall>k. positions_col st < k \<longrightarrow>
      column k (starting_positions ?st1) = column k (starting_positions st)"
    using len1 by (simp add: column_set_column_other)
  have st2: "map length (starting_positions st2) = map length (starting_positions st)
      \<and> length tbl = length (starting_positions st) \<and> length peaks = length (starting_positions st)
      \<and> aperture_table st2 = aperture_table st
      \<and> (\<forall>k. positions_col st2 < k \<longrightarrow>
            column k (starting_positions st2) = column k (starting_positions st))
      \<and> positions_col st2 =
           min (starting_positions_index st2) (length (hd (starting_positions st)) - 1)"
  proof (cases "any_negative tbl1")
    case False
    with pos dims1 len1 other1 col show ?thesis by simp
  next
    case True
    note r = retry_Inr [OF neg [OF True]]
    show ?thesis
    proof (cases "starting_positions_index ?st1 + 1 < length (hd (starting_positions ?st1))")
      case False
      from r(5) [OF False] have same: "tbl = tbl1" "peaks = peaks1"
        "positions_col st2 = positions_col st" "starting_positions st2 = starting_positions ?st1"
        by simp_all
      from False shape1(2) have "length (hd (starting_positions st)) - 1 \<le> starting_positions_index st"
        by simp
      with col r(1) have "positions_col st =
           min (starting_positions_index st2) (length (hd (starting_positions st)) - 1)"
        by simp
      with same dims1 len1 other1 r(2) show ?thesis by simp
    next
      case True
      from r(4) [OF True] obtain ps2 where
        c2: "positions_col st2 = starting_positions_index ?st1 + 1"
        and second: "find_objects_stats ap offset radius
            (subtract_sky (median (concat (data_wsky fr))) (data_wsky fr))
            (column (starting_positions_index ?st1 + 1) (starting_positions ?st1))
            = Inr (ps2, tbl, peaks)"
        and sp2: "starting_positions st2 =
            set_column (starting_positions_index ?st1 + 1) ps2 (starting_positions ?st1)"
        by blast
      note l2 = find_objects_stats_lengths [OF second]
      from l2 have len2: "length ps2 = length (starting_positions ?st1)"
        "length tbl = length (starting_positions ?st1)"
        "length peaks = length (starting_positions ?st1)"
        by simp_all
      have d2: "map length (starting_positions st2) = map length (starting_positions st)"
        using len2 dims1 by (simp add: sp2 map_length_set_column)
      have o2: "\<forall>k. positions_col st2 < k \<longrightarrow>
            column k (starting_positions st2) = column k (starting_positions st)"
      proof (intro allI impI)
        fix k assume "positions_col st2 < k"
        with c2 rows(3) have k: "k \<noteq> starting_positions_index ?st1 + 1" "positions_col st < k"
          by simp_all
        from k(1) len2 have "column k (starting_positions st2) = column k (starting_positions ?st1)"
          by (simp add: sp2 column_set_column_other)
        with other1 k(2) show "column k (starting_positions st2) = column k (starting_positions st)"
          by simp
      qed
      from True shape1(2) c2 r(1) have "positions_col st2 =
           min (starting_positions_index st2) (length (hd (starting_positions st)) - 1)"
        by simp
      with d2 o2 len2 shape1(4) r(2) show ?thesis by simp
    qed
  qed
  from rec obtain ps where tc: "truncated_centroids tbl = Inr ps"
    and nm: "length names = length tbl"
    and tab: "aperture_table st' =
           aperture_table st2 @ map (make_row radius (median (concat (data_wsky fr))) fr)
             (zip names (zip tbl peaks))"
    and sp': "starting_positions st' = set_column (positions_col st2) ps (starting_positions st2)"
    and c': "positions_col st' = positions_col st2"
    and i': "starting_positions_index st' = starting_positions_index st2"
    by (rule record_frame_Inr) blast
  from st2 have l2: "length (starting_positions st2) = length (starting_positions st)"
    by (metis length_map)
  show thesis
  proof (rule that [of tbl ps peaks "starting_positions st2"])
    show "truncated_centroids tbl = Inr ps" by (rule tc)
    show "length names = length tbl" by (rule nm)
    show "length peaks = length tbl" using st2 by simp
    show "aperture_table st' = aperture_table st @
           map (make_row radius (median (concat (data_wsky fr))) fr) (zip names (zip tbl peaks))"
      using tab st2 by simp
    show "starting_positions st' = set_column (positions_col st') ps (starting_positions st2)"
      using sp' c' by simp
    show "map length (starting_positions st2) = map length (starting_positions st)"
      using st2 by simp
    show "length ps = length (starting_positions st2)"
      using truncated_centroids_length [OF tc] st2 l2 by simp
    show "\<forall>k. positions_col st' < k \<longrightarrow>
            column k (starting_positions st2) = column k (starting_positions st)"
      using st2 c' by simp
    show "positions_col st' =
           min (starting_positions_index st') (length (hd (starting_positions st)) - 1)"
      using st2 c' i' by simp
  qed
qed

lemma process_frame_view:
  assumes ok: "table_ok st"
    and step: "process_frame ap offset radius names st fr = Inr st'"
  shows "table_ok st'"
    and "length (hd (starting_positions st')) = length (hd (starting_positions st))"
    and "\<forall>k. positions_col st' < k \<longrightarrow>
           column k (starting_positions st') = column k (starting_positions st)"
    and "\<exists>rows. aperture_table st' = aperture_table st @ rows \<and>
           map (\<lambda>r. (py_int (xcenter r), py_int (ycenter r))) rows =
           map (\<lambda>p. (Inr (fst p), Inr (snd p))) (positions st')"
    and "positions_col st \<le> positions_col st'"
proof -
  from ok step obtain tbl peaks ps sp2 where
    tc: "truncated_centroids tbl = Inr ps" and nm: "length names = length tbl"
    and pk: "length peaks = length tbl"
    and tab: "aperture_table st' = aperture_table st @
           map (make_row radius (median (concat (data_wsky fr))) fr) (zip names (zip tbl peaks))"
    and sp': "starting_positions st' = set_column (positions_col st') ps sp2"
    and d2: "map length sp2 = map length (starting_positions st)"
    and lps: "length ps = length sp2"
    and other: "\<forall>k. positions_col st' < k \<longrightarrow> column k sp2 = column k (starting_positions st)"
    and col': "positions_col st' =
           min (starting_positions_index st') (length (hd (starting_positions st)) - 1)"
    by (rule process_frame_shape) blast
  note rows = table_ok_rows [OF ok]
  from ok have ne: "hd (starting_positions st) \<noteq> []" and rect: "rectangular (starting_positions st)"
    and col: "positions_col st =
        min (starting_positions_index st) (length (hd (starting_positions st)) - 1)"
    by (simp_all add: table_ok_def)
  have d': "map length (starting_positions st') = map length (starting_positions st)"
    using lps d2 by (simp add: sp' map_length_set_column)
  note shape' = same_shape [OF d']
  note shape2 = same_shape [OF d2]
  show hd': "length (hd (starting_positions st')) = length (hd (starting_positions st))"
    by (rule shape'(2))
  from ne hd' have ne': "hd (starting_positions st') \<noteq> []"
    by (metis length_0_conv)
  from shape'(1) rows(4) have "starting_positions st' \<noteq> []" by simp
  with ne' shape'(3) rect col' hd' show "table_ok st'"
    by (simp add: table_ok_def)
  show "\<forall>k. positions_col st' < k \<longrightarrow>
           column k (starting_positions st') = column k (starting_positions st)"
  proof (intro allI impI)
    fix k assume k: "positions_col st' < k"
    then have "column k (starting_positions st') = column k sp2"
      using lps by (simp add: sp' column_set_column_other)
    with other k show "column k (starting_positions st') = column k (starting_positions st)"
      by simp
  qed
  from ne have n0: "0 < length (hd (starting_positions st))" by simp
  with col' have c_lt: "positions_col st' < length (hd (starting_positions st))"
    by linarith
  from rect shape2(3) have "rectangular sp2" by simp
  then have "\<forall>row\<in>set sp2. length row = length (hd (starting_positions st))"
    by (simp add: rectangular_rows shape2(2))
  with c_lt have "\<forall>row\<in>set sp2. positions_col st' < length row" by simp
  with lps have "column (positions_col st') (set_column (positions_col st') ps sp2) = ps"
    by (rule column_set_column_same)
  then have view: "positions st' = ps"
    by (simp add: positions_def sp')
  have "map (\<lambda>r. (py_int (xcenter r), py_int (ycenter r)))
           (map (make_row radius (median (concat (data_wsky fr))) fr) (zip names (zip tbl peaks)))
        = map (\<lambda>p. (Inr (fst p), Inr (snd p))) (positions st')"
    unfolding view
    by (rule trans [OF make_row_centres [OF nm pk] truncated_centroids_map [OF tc]])
  with tab
  show "\<exists>rows. aperture_table st' = aperture_table st @ rows \<and>
           map (\<lambda>r. (py_int (xcenter r), py_int (ycenter r))) rows =
           map (\<lambda>p. (Inr (fst p), Inr (snd p))) (positions st')"
    by (intro exI conjI)
  from process_frame_index_mono [OF step] col col'
  show "positions_col st \<le> positions_col st'"
    by simp
qed

lemma run_view:
  assumes "table_ok st" and "run ap offset radius names st frs = Inr st'"
  shows "table_ok st' \<and>
         length (hd (starting_positions st')) = length (hd (starting_positions st)) \<and>
         positions_col st \<le> positions_col st' \<and>
         (\<forall>k. positions_col st' < k \<longrightarrow>
            column k (starting_positions st') = column k (starting_positions st))"
  using assms
proof (induction frs arbitrary: st)
  case Nil
  then show ?case by simp
next
  case (Cons fr frs)
  from Cons.prems(2) obtain st1 where s1: "process_frame ap offset radius names st fr = Inr st1"
    and r: "run ap offset radius names st1 frs = Inr st'"
    by (auto split: sum.splits)
  note v = process_frame_view [OF Cons.prems(1) s1]
  note ih = Cons.IH [OF v(1) r]
  from ih v(2) have "length (hd (starting_positions st')) = length (hd (starting_positions st))"
    by simp
  moreover from ih v(5) have "positions_col st \<le> positions_col st'"
    by simp
  moreover have "\<forall>k. positions_col st' < k \<longrightarrow>
            column k (starting_positions st') = column k (starting_positions st)"
  proof (intro allI impI)
    fix k assume k: "positions_col st' < k"
    with ih have "positions_col st1 < k" by simp
    with v(3) ih k show "column k (starting_positions st') = column k (starting_positions st)"
      by simp
  qed
  ultimately show ?case using ih by blast
qed

section \<open>Facts about the coordinate file\<close>

lemma split_on_nonempty: "split_on c s \<noteq> []"
  by (induction s) (auto split: list.splits)

lemma split_on_no_sep: "c \<notin> set s \<Longrightarrow> split_on c s = [s]"
  by (induction s) auto

lemma split_on_snoc: "split_on c (s @ [c]) = split_on c s @ [[]]"
proof (induction s)
  case Nil
  show ?case by simp
next
  case (Cons x xs)
  obtain w ws where "split_on c xs = w # ws"
    using split_on_nonempty [of c xs] by (cases "split_on c xs") auto
  with Cons show ?case by simp
qed

lemma split_on_trailing:
  assumes "text \<noteq> []" and "last text = c"
  shows "split_on c text = split_on c (butlast text) @ [[]]"
proof -
  from assms have "text = butlast text @ [c]"
    by (metis append_butlast_last_id)
  then have "split_on c text = split_on c (butlast text @ [c])"
    by simp
  then show ?thesis by (simp only: split_on_snoc)
qed

lemma parse_line_no_colon:
  "CHR '':'' \<notin> set line \<Longrightarrow> parse_line int_float line = Inl IndexError"
  by (simp add: parse_line_def split_on_no_sep py_get_def)

lemma parse_lines_append:
  "parse_lines int_float acc (ls @ ms) =
     (case parse_lines int_float acc ls of
        Inl e \<Rightarrow> Inl e
      | Inr acc' \<Rightarrow> parse_lines int_float acc' ms)"
  by (induction ls arbitrary: acc) (auto split: sum.splits)

lemma parse_lines_bad:
  "line \<in> set ls \<Longrightarrow> parse_line int_float line = Inl e \<Longrightarrow>
     \<exists>e'. parse_lines int_float acc ls = Inl e'"
proof (induction ls arbitrary: acc)
  case Nil
  then show ?case by simp
next
  case (Cons l ls)
  show ?case
  proof (cases "parse_line int_float l")
    case (Inl e0)
    then show ?thesis by simp
  next
    case (Inr t)
    with Cons.prems have "line \<in> set ls" by auto
    from Cons.IH [OF this Cons.prems(2)] Inr show ?thesis by simp
  qed
qed

text \<open>
  What a file that is accepted gives the loop: as many names as objects, at least one
  object, at least one round, the same number of rounds for all.
\<close>

lemma index_of_less: "x \<in> set xs \<Longrightarrow> index_of x xs < length xs"
  by (induction xs) auto

lemma add_coord_shape:
  assumes "length (fst acc) = length (snd acc)" and "[] \<notin> set (snd acc)"
  shows "length (fst (add_coord acc t)) = length (snd (add_coord acc t))"
    and "[] \<notin> set (snd (add_coord acc t))"
    and "fst (add_coord acc t) \<noteq> []"
proof -
  show "length (fst (add_coord acc t)) = length (snd (add_coord acc t))"
    using assms(1) by (simp add: add_coord_def Let_def)
  show "fst (add_coord acc t) \<noteq> []"
    by (auto simp: add_coord_def Let_def)
  show "[] \<notin> set (snd (add_coord acc t))"
  proof (cases "fst t \<in> set (fst acc)")
    case False
    with assms(2) show ?thesis by (simp add: add_coord_def Let_def)
  next
    case True
    have "set ((snd acc)[index_of (fst t) (fst acc) :=
                snd acc ! index_of (fst t) (fst acc) @ [snd t]])
          \<subseteq> insert (snd acc ! index_of (fst t) (fst acc) @ [snd t]) (set (snd acc))"
      by (rule set_update_subset_insert)
    with assms(2) have "[] \<notin> set ((snd acc)[index_of (fst t) (fst acc) :=
                snd acc ! index_of (fst t) (fst acc) @ [snd t]])"
      by auto
    with True show ?thesis by (simp add: add_coord_def Let_def)
  qed
qed

lemma parse_lines_shape:
  assumes "parse_lines int_float acc ls = Inr acc'"
    and "length (fst acc) = length (snd acc)" and "[] \<notin> set (snd acc)"
  shows "length (fst acc') = length (snd acc') \<and> [] \<notin> set (snd acc') \<and>
         (ls \<noteq> [] \<longrightarrow> fst acc' \<noteq> [])"
  using assms
proof (induction ls arbitrary: acc)
  case Nil
  then show ?case by simp
next
  case (Cons l ls)
  from Cons.prems(1) obtain t where t: "parse_line int_float l = Inr t"
    and rest: "parse_lines int_float (add_coord acc t) ls = Inr acc'"
    by (auto split: sum.splits)
  note a = add_coord_shape [OF Cons.prems(2,3), of t]
  note ih = Cons.IH [OF rest a(1,2)]
  have "fst acc' \<noteq> []"
  proof (cases ls)
    case Nil
    with rest a(3) show ?thesis by simp
  next
    case (Cons m ms)
    with ih show ?thesis by simp
  qed
  with ih show ?case by simp
qed

lemma read_coords_shape:
  assumes "read_coords int_float text = Inr (nms, sp)"
  shows "length nms = length sp" and "table_ok (initial_state sp)"
proof -
  from assms have p: "parse_lines int_float ([], []) (split_on CHR ''\<newline>'' text) = Inr (nms, sp)"
    and r: "rectangular sp"
    by (auto simp: read_coords_def split: sum.splits if_splits)
  from parse_lines_shape [OF p] split_on_nonempty [of "CHR ''\<newline>''" "text"]
  have s: "length nms = length sp" "[] \<notin> set sp" "nms \<noteq> []"
    by simp_all
  then show "length nms = length sp" by simp
  from s have ne: "sp \<noteq> []" by auto
  with s(2) have "hd sp \<noteq> []" by (metis hd_in_set)
  with ne show "table_ok (initial_state sp)"
    using r by (rule table_ok_initial)
qed

section \<open>Evaluations on the instances\<close>

lemmas loop_defs =
  positions_def column_def set_column_def write_positions_def any_negative_def make_rows_def
  record_frame_def retry_def process_frame_def initial_state_def

lemma flat100_region: "data_region 10 flat100 (0, 50) = replicate 20 []"
  by (simp add: data_region_def py_slice2_def py_slice_def slice_bound_def flat100_def)

lemma constant_frame_data:
  "subtract_sky (median (concat (data_wsky constant_frame))) (data_wsky constant_frame) = zeros5"
  by (simp add: constant_frame_def zeros5_def median_def subtract_sky_def)

lemma sky_frame_median: "median (concat (data_wsky sky_frame)) = Finite 5"
  by (simp add: sky_frame_def median_def)

lemma sky_frame_data: "subtract_sky (Finite 5) (data_wsky sky_frame) = sky_data"
  by (simp add: sky_frame_def sky_data_def subtract_sky_def)

lemma sky_first: "find_objects_stats center_aperture 1 1 sky_data [(1, 1)] =
   Inr ([(1, 1)], [(Finite 1, Finite 1, Finite (- 4))], [- 4])"
  by (simp add: tracker_defs sky_data_def center_aperture_def upt_unfold power2_eq_square)

lemma sky_second: "find_objects_stats center_aperture 1 1 sky_data [(4, 4)] =
   Inr ([(4, 4)], [(Finite 4, Finite 4, Finite 6)], [4])"
  by (simp add: tracker_defs sky_data_def center_aperture_def upt_unfold power2_eq_square)

lemma sky_both: "find_objects_stats center_aperture 1 1 sky_data [(1, 1), (4, 4)] =
   Inr ([(1, 1), (4, 4)], [(Finite 1, Finite 1, Finite (- 4)), (Finite 4, Finite 4, Finite 6)], [- 4, 4])"
  by (simp add: tracker_defs sky_data_def center_aperture_def upt_unfold power2_eq_square)

lemma sky_second2: "find_objects_stats center_aperture 1 1 sky_data [(4, 4), (4, 4)] =
   Inr ([(4, 4), (4, 4)], [(Finite 4, Finite 4, Finite 6), (Finite 4, Finite 4, Finite 6)], [4, 4])"
  by (simp add: tracker_defs sky_data_def center_aperture_def upt_unfold power2_eq_square)

lemma sky_third: "find_objects_stats center_aperture 1 1 sky_data [(5, 5)] =
   Inr ([(5, 5)], [(Finite (13 / 3), Finite 4, Finite 6)], [4])"
  by (simp add: tracker_defs sky_data_def center_aperture_def upt_unfold power2_eq_square)

lemma sky_step1:
  "process_frame center_aperture 1 1 [''A0620''] (initial_state [[(1, 1), (4, 4)]]) sky_frame
     = Inr sky_state1"
  by (simp add: loop_defs Let_def sky_frame_median sky_frame_data sky_first sky_second sky_state1_def
      sky_row_def py_trunc_def)

lemma sky_step2:
  "process_frame center_aperture 1 1 [''A0620''] sky_state1 sky_frame = Inr sky_state2"
  by (simp add: loop_defs Let_def sky_frame_median sky_frame_data sky_first sky_second sky_state1_def
      sky_state2_def sky_row_def py_trunc_def Let_def)

lemma sky_run:
  "run center_aperture 1 1 [''A0620''] (initial_state [[(1, 1), (4, 4)]]) [sky_frame, sky_frame]
     = Inr sky_state2"
  by (simp add: sky_step1 sky_step2)

lemma lost_step1:
  "process_frame center_aperture 1 1 [''A0620'', ''compstar1''] (initial_state [[(1, 1)], [(4, 4)]])
     sky_frame = Inr lost_state1"
  by (simp add: loop_defs Let_def sky_frame_median sky_frame_data sky_both lost_state1_def
      sky_row_def py_trunc_def)

lemma lost_step2:
  "process_frame center_aperture 1 1 [''A0620'', ''compstar1''] lost_state1 sky_frame
     = Inr lost_state2"
  by (simp add: loop_defs Let_def sky_frame_median sky_frame_data sky_both lost_state1_def
      lost_state2_def sky_row_def py_trunc_def)

lemma drift_step1:
  "process_frame center_aperture 1 1 [''A0620''] (initial_state [[(1, 1), (5, 5)]]) sky_frame
     = Inr drift_state1"
  by (simp add: loop_defs Let_def sky_frame_median sky_frame_data sky_first sky_third
      drift_state1_def sky_row_def py_trunc_def)

lemma drift_step2:
  "process_frame center_aperture 1 1 [''A0620''] drift_state1 sky_frame = Inr drift_state2"
  by (simp add: loop_defs Let_def sky_frame_median sky_frame_data sky_second
      drift_state1_def drift_state2_def sky_row_def py_trunc_def)

lemma coords_text_lines:
  "split_on CHR ''\<newline>'' (butlast coords_text) = [''A0620:(478, 565)'', ''compstar1:(385, 535)'']"
  by (simp add: coords_text_def)

lemma coords_text_parsed:
  "parse_lines digits_int_float ([], []) [''A0620:(478, 565)'', ''compstar1:(385, 535)'']
     = Inr ([''A0620'', ''compstar1''], [[(478, 565)], [(385, 535)]])"
  by (simp add: parse_line_def py_get_def add_coord_def digits_int_float_def is_digit_def
      digit_value_def)

lemma flat_sky_frame_data:
  "subtract_sky (median (concat (data_wsky flat_sky_frame))) (data_wsky flat_sky_frame) = zeros7"
  by (simp add: flat_sky_frame_def zeros7_def median_def subtract_sky_def)

lemma zeros7_track: "find_objects_stats ap 1 1 zeros7 [(4, 4)] = Inl ValueError"
  by (simp add: tracker_defs zeros7_def upt_unfold)

lemma sky_rev: "find_objects_stats center_aperture 1 1 sky_data [(4, 4), (1, 1)] =
   Inr ([(4, 4), (1, 1)], [(Finite 4, Finite 4, Finite 6), (Finite 1, Finite 1, Finite (- 4))], [4, - 4])"
  by (simp add: tracker_defs sky_data_def center_aperture_def upt_unfold power2_eq_square)

lemma found_step1:
  "process_frame center_aperture 1 1 [''A0620''] (initial_state [[(4, 4)]]) sky_frame
     = Inr found_state1"
  by (simp add: loop_defs Let_def sky_frame_median sky_frame_data sky_second found_state1_def
      sky_row_def py_trunc_def)

lemma found_step2:
  "process_frame center_aperture 1 1 [''A0620''] found_state1 flat_sky_frame = Inl ValueError"
  unfolding process_frame_def Let_def flat_sky_frame_data
  by (simp add: positions_def column_def found_state1_def zeros7_track)

lemma coords_one_object:
  "read_coords digits_int_float ''A0620:(4,4)'' = Inr ([''A0620''], [[(4, 4)]])"
  by (simp add: read_coords_def parse_line_def py_get_def add_coord_def rectangular_def
      digits_int_float_def is_digit_def digit_value_def)

section \<open>The claims\<close>

subsection \<open>Clamping and the search window\<close>

text \<open>
  C1. The clamp applies the first matching rule of its chain and skips the later ones.
  On a frame of height \<open>h\<close> and width \<open>w\<close> with at least one row, a position \<open>(x, y)\<close>
  becomes: with \<open>y - offset < 0\<close>, \<open>(x, offset)\<close>; else with \<open>y + offset \<ge> h\<close>,
  \<open>(x, h - offset - 1)\<close>; else with \<open>x - offset < 0\<close>, \<open>(0, y)\<close>; else with
  \<open>x + offset \<ge> w\<close>, \<open>(w - offset - 1, y)\<close>; else it stays. With \<open>y - offset < 0\<close> the
  result is \<open>(x, offset)\<close> on any frame, whether \<open>x\<close> is in range or not. In every call of
  the tracker that returns, object \<open>i\<close> is left at that position and the centre reported
  for it is the re-indexed centroid of the window cut there.
\<close>

theorem clamp_first_matching_rule:
  "(data \<noteq> [] \<longrightarrow>
      clamp_position offset data (x, y) =
        Inr (if y - offset < 0 then (x, offset)
             else if int (length data) \<le> y + offset then (x, int (length data) - offset - 1)
             else if x - offset < 0 then (0, y)
             else if int (length (hd data)) \<le> x + offset
                  then (int (length (hd data)) - offset - 1, y)
             else (x, y)))
   \<and> (y - offset < 0 \<longrightarrow> clamp_position offset data (x, y) = Inr (x, offset))
   \<and> (find_objects_stats ap offset radius data ps = Inr (ps', tbl, peaks) \<and>
        i < length ps \<and> ps ! i = (x, y) \<longrightarrow>
        ps' ! i =
           (if y - offset < 0 then (x, offset)
            else if int (length data) \<le> y + offset then (x, int (length data) - offset - 1)
            else if x - offset < 0 then (0, y)
            else if int (length (hd data)) \<le> x + offset
                 then (int (length (hd data)) - offset - 1, y)
            else (x, y))
        \<and> (fst (tbl ! i), fst (snd (tbl ! i))) =
            (fadd_int (fst (centroid (data_region offset data (ps' ! i)))) (fst (ps' ! i) - offset),
             fadd_int (snd (centroid (data_region offset data (ps' ! i)))) (snd (ps' ! i) - offset)))"
proof (intro conjI impI)
  assume "data \<noteq> []"
  then show "clamp_position offset data (x, y) =
        Inr (if y - offset < 0 then (x, offset)
             else if int (length data) \<le> y + offset then (x, int (length data) - offset - 1)
             else if x - offset < 0 then (0, y)
             else if int (length (hd data)) \<le> x + offset
                  then (int (length (hd data)) - offset - 1, y)
             else (x, y))"
    by (rule clamp_position_rows)
next
  assume "y - offset < 0"
  then show "clamp_position offset data (x, y) = Inr (x, offset)"
    by (simp add: clamp_position_def)
next
  assume a: "find_objects_stats ap offset radius data ps = Inr (ps', tbl, peaks) \<and>
        i < length ps \<and> ps ! i = (x, y)"
  then have run: "find_objects_stats ap offset radius data ps = Inr (ps', tbl, peaks)"
    and i: "i < length ps" and p: "ps ! i = (x, y)"
    by simp_all
  note f = find_objects_stats_nth [OF run i]
  from f(1) f(5) show "ps' ! i =
           (if y - offset < 0 then (x, offset)
            else if int (length data) \<le> y + offset then (x, int (length data) - offset - 1)
            else if x - offset < 0 then (0, y)
            else if int (length (hd data)) \<le> x + offset
                 then (int (length (hd data)) - offset - 1, y)
            else (x, y))"
    by (simp add: p clamp_position_rows)
  from f(6) show "(fst (tbl ! i), fst (snd (tbl ! i))) =
            (fadd_int (fst (centroid (data_region offset data (ps' ! i)))) (fst (ps' ! i) - offset),
             fadd_int (snd (centroid (data_region offset data (ps' ! i)))) (snd (ps' ! i) - offset))"
    by (simp add: reindex_def Let_def)
qed

text \<open>
  The rule at a corner of \<open>frame5\<close>: \<open>(4, 0)\<close> with offset 1 has \<open>y - offset < 0\<close> and
  \<open>x + offset \<ge> w\<close>; only \<open>y\<close> is clamped.
\<close>

theorem clamp_first_matching_rule_witness:
  "frame5 \<noteq> []
   \<and> (0 :: int) - 1 < 0
   \<and> clamp_position 1 frame5 (4, 0) = Inr (4, 1)
   \<and> find_objects_stats center_aperture 1 1 frame5 [(4, 0)] =
       Inr ([(4, 1)], [(Finite (7 / 2), Finite (1 / 2), Finite 4)], [1])
   \<and> (0 :: nat) < length [(4 :: int, 0 :: int)]
   \<and> [(4 :: int, 1 :: int)] ! 0 = (4, 1)
   \<and> (fst ([(Finite (7 / 2), Finite (1 / 2), Finite 4)] ! 0),
       fst (snd ([(Finite (7 / 2), Finite (1 / 2), Finite 4)] ! 0))) =
      (fadd_int (fst (centroid (data_region 1 frame5 (4, 1)))) (4 - 1),
       fadd_int (snd (centroid (data_region 1 frame5 (4, 1)))) (1 - 1))"
proof -
  have ne: "frame5 \<noteq> []" by (simp add: frame5_def)
  have run: "find_objects_stats center_aperture 1 1 frame5 [(4, 0)] =
     Inr ([(4, 1)], [(Finite (7 / 2), Finite (1 / 2), Finite 4)], [1])"
    by (simp add: tracker_defs frame5_def center_aperture_def upt_unfold power2_eq_square)
  from clamp_first_matching_rule [of frame5 1 4 0 center_aperture 1 "[(4, 0)]" "[(4, 1)]"
      "[(Finite (7 / 2), Finite (1 / 2), Finite 4)]" "[1]" 0] ne run
  show ?thesis by simp
qed

text \<open>
  C3. The window is meant to lie inside the frame, and the clamping chain is there for
  that, but its third rule sets \<open>x = 0\<close> where the first sets \<open>y = offset\<close>. On a 100 by
  100 frame with offset 10, the object at \<open>(3, 50)\<close> is moved to \<open>(0, 50)\<close>; the column
  bounds of its window are \<open>-10 : 10\<close>, the lower one below 0. numpy reads \<open>-10\<close> as
  column 90, the window has no columns, and the call raises at the peak lookup.
\<close>

theorem window_left_of_frame:
  "clamp_position 10 flat100 (3, 50) = Inr (0, 50)
   \<and> fst (0 :: int, 50 :: int) - 10 < 0
   \<and> data_region 10 flat100 (0, 50) = replicate 20 []
   \<and> find_objects_stats ap 10 5 flat100 [(3, 50)] = Inl ValueError"
proof -
  have c: "clamp_position 10 flat100 (3, 50) = Inr (0, 50)"
    by (simp add: clamp_position_def flat100_def)
  have z: "np_sum (data_region 10 flat100 (0, 50)) = 0" "y_sum (data_region 10 flat100 (0, 50)) = 0"
    by (rule empty_columns_centroid, simp add: flat100_region)+
  from track_one_zero_sum [OF c z(1)] z(2) have "track_one 10 flat100 (3, 50) = Inl ValueError"
    by simp
  then have "find_objects_stats ap 10 5 flat100 [(3, 50)] = Inl ValueError"
    by (simp add: find_objects_stats_def)
  with c flat100_region show ?thesis by simp
qed

subsection \<open>Fallback and the hypothesis index\<close>

text \<open>
  C2. Once the first pass on a frame has returned: when no object's aperture sum is
  negative, the frame is recorded from that pass and the index is unchanged. When the
  sum of any object is negative, whichever object it is, the index goes up by one; if it
  still names a round, the tracker runs once more on that column of the table for all
  objects and the frame is recorded from the second pass, whatever its sums are; if it
  does not, the frame is recorded from the first pass.
\<close>

theorem single_retry:
  assumes first: "find_objects_stats ap offset radius data (positions st) = Inr (ps1, tbl1, peaks1)"
    and data: "data = subtract_sky (median (concat (data_wsky fr))) (data_wsky fr)"
    and names: "length names = length (starting_positions st)"
    and view: "positions_col st \<le> starting_positions_index st"
  shows "(\<not> (\<exists>e\<in>set tbl1. snd (snd e) = NInf \<or> (\<exists>r. snd (snd e) = Finite r \<and> r < 0)) \<longrightarrow>
            (\<exists>st'. process_frame ap offset radius names st fr = Inr st' \<and>
               starting_positions_index st' = starting_positions_index st \<and>
               aperture_table st' = aperture_table st @
                 map (make_row radius (median (concat (data_wsky fr))) fr)
                   (zip names (zip tbl1 peaks1))))
       \<and> ((\<exists>e\<in>set tbl1. snd (snd e) = NInf \<or> (\<exists>r. snd (snd e) = Finite r \<and> r < 0)) \<and>
            starting_positions_index st + 1 < length (hd (starting_positions st)) \<longrightarrow>
            (case find_objects_stats ap offset radius data
                    (column (starting_positions_index st + 1) (starting_positions st)) of
               Inl e \<Rightarrow> process_frame ap offset radius names st fr = Inl e
             | Inr (ps2, tbl2, peaks2) \<Rightarrow>
                 (\<exists>st'. process_frame ap offset radius names st fr = Inr st' \<and>
                    starting_positions_index st' = starting_positions_index st + 1 \<and>
                    aperture_table st' = aperture_table st @
                      map (make_row radius (median (concat (data_wsky fr))) fr)
                        (zip names (zip tbl2 peaks2)))))
       \<and> ((\<exists>e\<in>set tbl1. snd (snd e) = NInf \<or> (\<exists>r. snd (snd e) = Finite r \<and> r < 0)) \<and>
            \<not> starting_positions_index st + 1 < length (hd (starting_positions st)) \<longrightarrow>
            (\<exists>st'. process_frame ap offset radius names st fr = Inr st' \<and>
               starting_positions_index st' = starting_positions_index st + 1 \<and>
               aperture_table st' = aperture_table st @
                 map (make_row radius (median (concat (data_wsky fr))) fr)
                   (zip names (zip tbl1 peaks1))))"
  using process_frame_cases [OF assms] unfolding any_negative_iff .

text \<open>
  On \<open>sky_frame\<close> with two objects, the negative sum at the second: with a second round
  both rows come from the second pass; without one the negative sum is recorded; and two
  objects that are both found at once.
\<close>

theorem single_retry_witness:
  "find_objects_stats center_aperture 1 1 sky_data
       (positions (initial_state [[(4, 4), (4, 4)], [(1, 1), (4, 4)]]))
     = Inr ([(4, 4), (1, 1)],
            [(Finite 4, Finite 4, Finite 6), (Finite 1, Finite 1, Finite (- 4))], [4, - 4])
   \<and> (\<exists>e\<in>set [(Finite 4, Finite 4, Finite 6), (Finite 1, Finite 1, Finite (- 4))].
          snd (snd e) = NInf \<or> (\<exists>r. snd (snd e) = Finite r \<and> r < 0))
   \<and> \<not> (\<exists>r. snd (snd (hd [(Finite 4, Finite 4, Finite 6), (Finite 1, Finite 1, Finite (- 4))]))
                = Finite r \<and> r < 0)
   \<and> (\<exists>st'. process_frame center_aperture 1 1 [''A0620'', ''compstar1'']
                (initial_state [[(4, 4), (4, 4)], [(1, 1), (4, 4)]]) sky_frame = Inr st' \<and>
              starting_positions_index st' = 1 \<and>
              aperture_table st' = [sky_row ''A0620'' (Finite 4) (Finite 4) (Finite 6) 4,
                                    sky_row ''compstar1'' (Finite 4) (Finite 4) (Finite 6) 4])
   \<and> (\<exists>st'. process_frame center_aperture 1 1 [''A0620'', ''compstar1'']
                (initial_state [[(4, 4)], [(1, 1)]]) sky_frame = Inr st' \<and>
              starting_positions_index st' = 1 \<and>
              aperture_table st' = [sky_row ''A0620'' (Finite 4) (Finite 4) (Finite 6) 4,
                                    sky_row ''compstar1'' (Finite 1) (Finite 1) (Finite (- 4)) (- 4)])
   \<and> (\<exists>st'. process_frame center_aperture 1 1 [''A0620'', ''compstar1'']
                (initial_state [[(4, 4)], [(4, 4)]]) sky_frame = Inr st' \<and>
              starting_positions_index st' = 0 \<and>
              aperture_table st' = [sky_row ''A0620'' (Finite 4) (Finite 4) (Finite 6) 4,
                                    sky_row ''compstar1'' (Finite 4) (Finite 4) (Finite 6) 4])"
proof -
  have d: "sky_data = subtract_sky (median (concat (data_wsky sky_frame))) (data_wsky sky_frame)"
    by (simp add: sky_frame_median sky_frame_data)
  have f2: "find_objects_stats center_aperture 1 1 sky_data
       (positions (initial_state [[(4, 4), (4, 4)], [(1, 1), (4, 4)]]))
     = Inr ([(4, 4), (1, 1)],
            [(Finite 4, Finite 4, Finite 6), (Finite 1, Finite 1, Finite (- 4))], [4, - 4])"
    by (simp add: positions_def column_def initial_state_def sky_rev)
  have f1: "find_objects_stats center_aperture 1 1 sky_data
       (positions (initial_state [[(4, 4)], [(1, 1)]]))
     = Inr ([(4, 4), (1, 1)],
            [(Finite 4, Finite 4, Finite 6), (Finite 1, Finite 1, Finite (- 4))], [4, - 4])"
    by (simp add: positions_def column_def initial_state_def sky_rev)
  have f0: "find_objects_stats center_aperture 1 1 sky_data
       (positions (initial_state [[(4, 4)], [(4, 4)]]))
     = Inr ([(4, 4), (4, 4)],
            [(Finite 4, Finite 4, Finite 6), (Finite 4, Finite 4, Finite 6)], [4, 4])"
    by (simp add: positions_def column_def initial_state_def sky_second2)
  have neg: "\<exists>e\<in>set [(Finite 4, Finite 4, Finite 6), (Finite 1, Finite 1, Finite (- 4))].
          snd (snd e) = NInf \<or> (\<exists>r. snd (snd e) = Finite r \<and> r < 0)"
    by simp
  have fst_pos: "\<not> (\<exists>r. snd (snd (hd [(Finite 4, Finite 4, Finite 6),
                    (Finite 1, Finite 1, Finite (- 4))])) = Finite r \<and> r < 0)"
    by simp
  have pos: "\<not> (\<exists>e\<in>set [(Finite 4, Finite 4, Finite 6), (Finite 4, Finite 4, Finite 6)].
          snd (snd e) = NInf \<or> (\<exists>r. snd (snd e) = Finite r \<and> r < 0))"
    by simp
  have B: "\<exists>st'. process_frame center_aperture 1 1 [''A0620'', ''compstar1'']
                (initial_state [[(4, 4), (4, 4)], [(1, 1), (4, 4)]]) sky_frame = Inr st' \<and>
              starting_positions_index st' = 1 \<and>
              aperture_table st' = [sky_row ''A0620'' (Finite 4) (Finite 4) (Finite 6) 4,
                                    sky_row ''compstar1'' (Finite 4) (Finite 4) (Finite 6) 4]"
    using single_retry [OF f2 d, of "[''A0620'', ''compstar1'']"] neg
    by (simp add: initial_state_def column_def sky_second2 sky_row_def sky_frame_median)
  have C: "\<exists>st'. process_frame center_aperture 1 1 [''A0620'', ''compstar1'']
                (initial_state [[(4, 4)], [(1, 1)]]) sky_frame = Inr st' \<and>
              starting_positions_index st' = 1 \<and>
              aperture_table st' = [sky_row ''A0620'' (Finite 4) (Finite 4) (Finite 6) 4,
                                    sky_row ''compstar1'' (Finite 1) (Finite 1) (Finite (- 4)) (- 4)]"
    using single_retry [OF f1 d, of "[''A0620'', ''compstar1'']"] neg
    by (simp add: initial_state_def sky_row_def sky_frame_median)
  have A: "\<exists>st'. process_frame center_aperture 1 1 [''A0620'', ''compstar1'']
                (initial_state [[(4, 4)], [(4, 4)]]) sky_frame = Inr st' \<and>
              starting_positions_index st' = 0 \<and>
              aperture_table st' = [sky_row ''A0620'' (Finite 4) (Finite 4) (Finite 6) 4,
                                    sky_row ''compstar1'' (Finite 4) (Finite 4) (Finite 6) 4]"
    using single_retry [OF f0 d, of "[''A0620'', ''compstar1'']"] pos
    by (simp add: initial_state_def sky_row_def sky_frame_median)
  show ?thesis
    by (intro conjI f2 neg fst_pos B C A)
qed

text \<open>
  C4. \<^verbatim>\<open>starting_positions_index\<close> is one number in the state of the loop, shared by all
  objects. It is 0 before the first frame; at any frame of a run that completes it goes
  up by one exactly when the first pass on that frame has a negative aperture sum, and
  stays otherwise; it never goes down again in the frames that follow.
\<close>

theorem hypothesis_index_monotone:
  assumes "run ap offset radius names (initial_state sp) (frs1 @ fr # frs2) = Inr st'"
  shows "starting_positions_index (initial_state sp) = 0
       \<and> (\<exists>st1 st2 ps1 tbl1 peaks1.
             run ap offset radius names (initial_state sp) frs1 = Inr st1 \<and>
             process_frame ap offset radius names st1 fr = Inr st2 \<and>
             run ap offset radius names st2 frs2 = Inr st' \<and>
             find_objects_stats ap offset radius
               (subtract_sky (median (concat (data_wsky fr))) (data_wsky fr)) (positions st1)
               = Inr (ps1, tbl1, peaks1) \<and>
             starting_positions_index st2 =
               (if any_negative tbl1 then starting_positions_index st1 + 1
                else starting_positions_index st1) \<and>
             starting_positions_index st1 \<le> starting_positions_index st2 \<and>
             starting_positions_index st2 \<le> starting_positions_index st')"
proof -
  from assms obtain st1 where r1: "run ap offset radius names (initial_state sp) frs1 = Inr st1"
    and r: "run ap offset radius names st1 (fr # frs2) = Inr st'"
    by (auto simp: run_append split: sum.splits)
  from r obtain st2 where s: "process_frame ap offset radius names st1 fr = Inr st2"
    and r2: "run ap offset radius names st2 frs2 = Inr st'"
    by (auto split: sum.splits)
  from s obtain ps1 tbl1 peaks1 where
    first: "find_objects_stats ap offset radius
       (subtract_sky (median (concat (data_wsky fr))) (data_wsky fr)) (positions st1)
       = Inr (ps1, tbl1, peaks1)"
    by (rule process_frame_Inr) blast
  note step = process_frame_index [OF s first]
  have "starting_positions_index (initial_state sp) = 0"
    by (simp add: initial_state_def)
  with r1 s r2 first step process_frame_index_mono [OF s] run_index_mono [OF r2]
  show ?thesis by blast
qed

text \<open>
  Two frames with two rounds: the first frame falls back and the index becomes 1; the
  second frame finds the star and the index stays 1.
\<close>

theorem hypothesis_index_monotone_witness:
  "run center_aperture 1 1 [''A0620''] (initial_state [[(1, 1), (4, 4)]]) ([] @ sky_frame # [sky_frame])
     = Inr sky_state2
   \<and> starting_positions_index (initial_state [[(1, 1), (4, 4)]]) = 0
   \<and> starting_positions_index sky_state1 = 1
   \<and> starting_positions_index sky_state2 = 1"
proof -
  have r: "run center_aperture 1 1 [''A0620''] (initial_state [[(1, 1), (4, 4)]])
             ([] @ sky_frame # [sky_frame]) = Inr sky_state2"
    using sky_run by simp
  from hypothesis_index_monotone [OF r] r show ?thesis
    by (simp add: sky_state1_def sky_state2_def)
qed

subsection \<open>A window whose values sum to zero\<close>

text \<open>
  C5 as stated asks for a failure value per object and frame, not a crash. On the
  constant frame the window sum is zero and the run ends with the ValueError.
\<close>

theorem zero_window_sum_crash:
  "np_sum (data_region 1 zeros5 (2, 2)) = 0
   \<and> find_objects_stats center_aperture 1 1 zeros5 [(2, 2)] = Inl ValueError
   \<and> run center_aperture 1 1 [''A0620''] (initial_state [[(2, 2)]]) [constant_frame]
       = Inl ValueError"
proof -
  have f: "find_objects_stats center_aperture 1 1 zeros5 [(2, 2)] = Inl ValueError"
    by (simp add: tracker_defs zeros5_def upt_unfold)
  have z: "np_sum (data_region 1 zeros5 (2, 2)) = 0"
    by (simp add: tracker_defs zeros5_def)
  have "process_frame center_aperture 1 1 [''A0620''] (initial_state [[(2, 2)]]) constant_frame
          = Inl ValueError"
    unfolding process_frame_def Let_def constant_frame_data
    by (simp add: f positions_def column_def initial_state_def)
  with f z show ?thesis by simp
qed

text \<open>
  C5, as the code has it. When the values of the search window sum to zero,
  \<^verbatim>\<open>centroid\<close> returns without raising and both coordinates are not finite; the tracker
  then raises at \<^verbatim>\<open>int(cen[1])\<close> of the peak lookup, a ValueError when the y-moment is
  zero as well and an OverflowError otherwise. Nothing catches it: the call of
  \<^verbatim>\<open>find_objects_stats\<close> and the run over the frames end with the exception, and no
  row of that frame is produced.
\<close>

theorem zero_window_sum_raises:
  assumes "p \<in> set (positions st)"
    and "data = subtract_sky (median (concat (data_wsky fr))) (data_wsky fr)"
    and "clamp_position offset data p = Inr p'"
    and "np_sum (data_region offset data p') = 0"
  shows "(\<forall>r. fst (centroid (data_region offset data p')) \<noteq> Finite r)
       \<and> (\<forall>r. snd (centroid (data_region offset data p')) \<noteq> Finite r)
       \<and> track_one offset data p =
           Inl (if y_sum (data_region offset data p') = 0 then ValueError else OverflowError)
       \<and> (\<exists>e. find_objects_stats ap offset radius data (positions st) = Inl e)
       \<and> (\<exists>e. run ap offset radius names st (fr # frs) = Inl e)"
proof -
  have nonfinite: "(\<forall>r. fst (centroid (data_region offset data p')) \<noteq> Finite r)
       \<and> (\<forall>r. snd (centroid (data_region offset data p')) \<noteq> Finite r)"
    by (simp add: centroid_zero_sum centroid_zero_sum_fst assms(4))
  note one = track_one_zero_sum [OF assms(3,4)]
  from find_objects_stats_Inl [OF assms(1) one] obtain e
    where e: "find_objects_stats ap offset radius data (positions st) = Inl e"
    by blast
  then have "process_frame ap offset radius names st fr = Inl e"
    by (simp add: process_frame_def Let_def assms(2) [symmetric])
  then have "run ap offset radius names st (fr # frs) = Inl e"
    by simp
  with nonfinite one e show ?thesis by blast
qed

text \<open>The same on the constant frame: after the median is taken off every window sums to 0.\<close>

theorem zero_window_sum_raises_witness:
  "(2, 2) \<in> set (positions (initial_state [[(2, 2)]]))
   \<and> clamp_position 1 zeros5 (2, 2) = Inr (2, 2)
   \<and> np_sum (data_region 1 zeros5 (2, 2)) = 0
   \<and> track_one 1 zeros5 (2, 2) = Inl ValueError
   \<and> (\<exists>e. run center_aperture 1 1 [''A0620''] (initial_state [[(2, 2)]]) [constant_frame] = Inl e)"
proof -
  have a: "(2, 2) \<in> set (positions (initial_state [[(2, 2)]]))"
    by (simp add: positions_def column_def initial_state_def)
  have c: "clamp_position 1 zeros5 (2, 2) = Inr (2, 2)"
    by (simp add: clamp_position_def zeros5_def)
  have z: "np_sum (data_region 1 zeros5 (2, 2)) = 0"
    by (simp add: tracker_defs zeros5_def)
  have y: "y_sum (data_region 1 zeros5 (2, 2)) = 0"
    by (simp add: tracker_defs zeros5_def upt_unfold)
  from zero_window_sum_raises [OF a constant_frame_data [symmetric] c z,
      of center_aperture 1 "[''A0620'']" "[]"] a c z y
  show ?thesis by simp
qed

subsection \<open>Magnitudes\<close>

text \<open>
  C6. For a positive aperture sum \<open>s\<close> the magnitude column holds
  \<open>-2.5 * log10(s / fluxzero) + magzero\<close> with the two fixed constants, and
  \<open>fluxzero * 10 ^ ((magzero - magnitude) / 2.5)\<close> gives \<open>s\<close> back, over the reals.
\<close>

theorem magnitude_round_trip:
  assumes "0 < s"
  shows "mag (Finite s) = Finite (- 2.5 * log 10 (s / fluxzero) + magzero)
       \<and> fluxzero * 10 powr ((magzero - (- 2.5 * log 10 (s / fluxzero) + magzero)) / 2.5) = s
       \<and> aperture_mag (make_row radius skybkg fr (nm, (cx, cy, Finite s), pk)) =
           Finite (- 2.5 * log 10 (s / fluxzero) + magzero)"
proof -
  have fz: "0 < fluxzero" by (simp add: fluxzero_def)
  with assms have pos: "0 < s / fluxzero" by simp
  have "(magzero - (- 2.5 * log 10 (s / fluxzero) + magzero)) / 2.5 = log 10 (s / fluxzero)"
    by simp
  then have "fluxzero * 10 powr ((magzero - (- 2.5 * log 10 (s / fluxzero) + magzero)) / 2.5)
      = fluxzero * 10 powr (log 10 (s / fluxzero))"
    by (rule arg_cong)
  also have "\<dots> = fluxzero * (s / fluxzero)"
    using pos by simp
  also have "\<dots> = s" using fz by simp
  finally show ?thesis using assms by (simp add: make_row_def)
qed

theorem magnitude_round_trip_witness:
  "(0 :: real) < 1000
   \<and> mag (Finite 1000) = Finite (- 2.5 * log 10 (1000 / fluxzero) + magzero)
   \<and> fluxzero * 10 powr ((magzero - (- 2.5 * log 10 (1000 / fluxzero) + magzero)) / 2.5) = 1000"
  using magnitude_round_trip [of 1000] by simp

subsection \<open>Rows of the table\<close>

text \<open>
  C7 as stated has no frame and no row ever dropped. A run of three frames whose second
  frame is constant: the first frame is tracked and its row computed, the second raises,
  and the script ends with the exception before a table is written.
\<close>

theorem frame_rows_lost_on_exception:
  "process_frame center_aperture 1 1 [''A0620''] (initial_state [[(4, 4)]]) sky_frame
     = Inr found_state1
   \<and> aperture_table found_state1 = [sky_row ''A0620'' (Finite 4) (Finite 4) (Finite 6) 4]
   \<and> run center_aperture 1 1 [''A0620''] (initial_state [[(4, 4)]])
        [sky_frame, flat_sky_frame, sky_frame] = Inl ValueError
   \<and> photometry_pipeline digits_int_float center_aperture 1 1 ''A0620:(4,4)''
        [sky_frame, flat_sky_frame, sky_frame] = Inl ValueError"
proof -
  have r: "run center_aperture 1 1 [''A0620''] (initial_state [[(4, 4)]])
        [sky_frame, flat_sky_frame, sky_frame] = Inl ValueError"
    by (simp add: found_step1 found_step2)
  then have "photometry_pipeline digits_int_float center_aperture 1 1 ''A0620:(4,4)''
        [sky_frame, flat_sky_frame, sky_frame] = Inl ValueError"
    by (simp add: photometry_pipeline_def coords_one_object)
  with r found_step1 show ?thesis
    by (simp add: found_state1_def)
qed

text \<open>
  C7, as the code has it. A run that completes has appended, for each frame in order, one
  group of rows: as many rows as there are tracked objects, their names the list
  \<^verbatim>\<open>names\<close> in its order, all carrying the frame's file name; negative aperture sums
  do not change that. An exception in a frame is not caught: it is the result of the run
  whatever frames came before and come after, a run fails only so, and the script gives
  the table of the completed run or the exception and no table.
\<close>

theorem one_row_per_object_per_frame:
  "(run ap offset radius names st frs = Inr st' \<longrightarrow>
      (\<exists>groups. aperture_table st' = aperture_table st @ concat groups
           \<and> length groups = length frs
           \<and> (\<forall>k<length frs.
                 length (groups ! k) = length (starting_positions st) \<and>
                 map name (groups ! k) = names \<and>
                 map filename (groups ! k) = replicate (length names) (fits_file (frs ! k)))))
   \<and> (run ap offset radius names st frs1 = Inr st1 \<and>
        process_frame ap offset radius names st1 fr = Inl e \<longrightarrow>
        run ap offset radius names st (frs1 @ fr # frs2) = Inl e)
   \<and> (run ap offset radius names st frs = Inl e \<longrightarrow>
        (\<exists>frs1 fr frs2 st1. frs = frs1 @ fr # frs2 \<and>
           run ap offset radius names st frs1 = Inr st1 \<and>
           process_frame ap offset radius names st1 fr = Inl e))
   \<and> (read_coords int_float txt = Inr (names, sp) \<longrightarrow>
        photometry_pipeline int_float ap offset radius txt frs =
          (case run ap offset radius names (initial_state sp) frs of
             Inl e \<Rightarrow> Inl e
           | Inr st \<Rightarrow> Inr (aperture_table st)))"
proof (intro conjI impI)
  assume "run ap offset radius names st frs = Inr st'"
  then show "\<exists>groups. aperture_table st' = aperture_table st @ concat groups
           \<and> length groups = length frs
           \<and> (\<forall>k<length frs.
                 length (groups ! k) = length (starting_positions st) \<and>
                 map name (groups ! k) = names \<and>
                 map filename (groups ! k) = replicate (length names) (fits_file (frs ! k)))"
    by (rule run_rows)
next
  assume "run ap offset radius names st frs1 = Inr st1 \<and>
        process_frame ap offset radius names st1 fr = Inl e"
  then show "run ap offset radius names st (frs1 @ fr # frs2) = Inl e"
    by (simp add: run_abort)
next
  assume "run ap offset radius names st frs = Inl e"
  then show "\<exists>frs1 fr frs2 st1. frs = frs1 @ fr # frs2 \<and>
           run ap offset radius names st frs1 = Inr st1 \<and>
           process_frame ap offset radius names st1 fr = Inl e"
    by (rule run_Inl)
next
  assume "read_coords int_float txt = Inr (names, sp)"
  then show "photometry_pipeline int_float ap offset radius txt frs =
          (case run ap offset radius names (initial_state sp) frs of
             Inl e \<Rightarrow> Inl e
           | Inr st \<Rightarrow> Inr (aperture_table st))"
    by (simp add: photometry_pipeline_def)
qed

text \<open>
  Two objects with a single round each, the first with a negative sum on both frames: the
  table gets two rows per frame. One object on three frames with a constant second
  frame: the run is the ValueError of that frame.
\<close>

theorem one_row_per_object_per_frame_witness:
  "run center_aperture 1 1 [''A0620'', ''compstar1''] (initial_state [[(1, 1)], [(4, 4)]])
     [sky_frame, sky_frame] = Inr lost_state2
   \<and> map name (aperture_table lost_state2) = [''A0620'', ''compstar1'', ''A0620'', ''compstar1'']
   \<and> map aperture_sum (aperture_table lost_state2) = [Finite (- 4), Finite 6, Finite (- 4), Finite 6]
   \<and> (\<exists>groups. aperture_table lost_state2 =
          aperture_table (initial_state [[(1, 1)], [(4, 4)]]) @ concat groups
        \<and> length groups = length [sky_frame, sky_frame]
        \<and> (\<forall>k<length [sky_frame, sky_frame].
              length (groups ! k) = length (starting_positions (initial_state [[(1, 1)], [(4, 4)]])) \<and>
              map name (groups ! k) = [''A0620'', ''compstar1''] \<and>
              map filename (groups ! k) =
                replicate (length [''A0620'', ''compstar1'']) (fits_file ([sky_frame, sky_frame] ! k))))
   \<and> run center_aperture 1 1 [''A0620''] (initial_state [[(4, 4)]]) [sky_frame] = Inr found_state1
   \<and> process_frame center_aperture 1 1 [''A0620''] found_state1 flat_sky_frame = Inl ValueError
   \<and> run center_aperture 1 1 [''A0620''] (initial_state [[(4, 4)]])
        ([sky_frame] @ flat_sky_frame # [sky_frame]) = Inl ValueError
   \<and> read_coords digits_int_float ''A0620:(4,4)'' = Inr ([''A0620''], [[(4, 4)]])
   \<and> photometry_pipeline digits_int_float center_aperture 1 1 ''A0620:(4,4)'' [sky_frame]
        = Inr (aperture_table found_state1)"
proof -
  have r: "run center_aperture 1 1 [''A0620'', ''compstar1''] (initial_state [[(1, 1)], [(4, 4)]])
     [sky_frame, sky_frame] = Inr lost_state2"
    by (simp add: lost_step1 lost_step2)
  have n: "map name (aperture_table lost_state2) = [''A0620'', ''compstar1'', ''A0620'', ''compstar1'']"
    by (simp add: lost_state2_def sky_row_def make_row_def)
  have a: "map aperture_sum (aperture_table lost_state2) = [Finite (- 4), Finite 6, Finite (- 4), Finite 6]"
    by (simp add: lost_state2_def sky_row_def make_row_def)
  have r1: "run center_aperture 1 1 [''A0620''] (initial_state [[(4, 4)]]) [sky_frame]
      = Inr found_state1"
    by (simp add: found_step1)
  note t = one_row_per_object_per_frame [of center_aperture 1 1 "[''A0620'', ''compstar1'']"
      "initial_state [[(1, 1)], [(4, 4)]]" "[sky_frame, sky_frame]" lost_state2]
  note u = one_row_per_object_per_frame [of center_aperture 1 1 "[''A0620'']"
      "initial_state [[(4, 4)]]" "[sky_frame]" found_state1 "[sky_frame]" found_state1
      flat_sky_frame ValueError "[sky_frame]" digits_int_float "''A0620:(4,4)''" "[[(4, 4)]]"]
  from t r have g: "\<exists>groups. aperture_table lost_state2 =
          aperture_table (initial_state [[(1, 1)], [(4, 4)]]) @ concat groups
        \<and> length groups = length [sky_frame, sky_frame]
        \<and> (\<forall>k<length [sky_frame, sky_frame].
              length (groups ! k) = length (starting_positions (initial_state [[(1, 1)], [(4, 4)]])) \<and>
              map name (groups ! k) = [''A0620'', ''compstar1''] \<and>
              map filename (groups ! k) =
                replicate (length [''A0620'', ''compstar1'']) (fits_file ([sky_frame, sky_frame] ! k)))"
    by blast
  from u r1 found_step2 have ab: "run center_aperture 1 1 [''A0620''] (initial_state [[(4, 4)]])
        ([sky_frame] @ flat_sky_frame # [sky_frame]) = Inl ValueError"
    by blast
  from u coords_one_object r1 have pl: "photometry_pipeline digits_int_float center_aperture 1 1
        ''A0620:(4,4)'' [sky_frame] = Inr (aperture_table found_state1)"
    by simp
  show ?thesis
    by (intro conjI r n a g r1 found_step2 ab coords_one_object pl)
qed

subsection \<open>Who writes the positions\<close>

text \<open>
  C8 as stated has the tracker leave the caller's positions alone. The object at \<open>(2, 0)\<close>
  of \<open>frame5\<close> comes back at \<open>(2, 1)\<close>.
\<close>

theorem tracker_clamps_positions_in_place:
  "find_objects_stats center_aperture 1 1 frame5 [(2, 0)] =
     Inr ([(2, 1)], [(Finite (11 / 7), Finite (5 / 7), Finite 7)], [1])
   \<and> [(2 :: int, 1 :: int)] \<noteq> [(2, 0)]"
  by (simp add: tracker_defs frame5_def center_aperture_def upt_unfold power2_eq_square)

text \<open>
  C8, as the code has it. The tracker writes into the caller's positions: in a call that
  returns, a position for which no clamp condition holds comes back unchanged, and one
  that comes back changed has one coordinate overwritten by the value of a clamp rule.
  The position update at the end of the frame then leaves the positions at the truncated
  centroids of the frame's rows.
\<close>

theorem tracker_position_effect:
  "(find_objects_stats ap offset radius data ps = Inr (ps', tbl, peaks) \<and>
    i < length ps \<and> ps ! i = (x, y) \<longrightarrow>
      length ps' = length ps
      \<and> (0 \<le> y - offset \<and> y + offset < int (length data) \<and>
         0 \<le> x - offset \<and> x + offset < int (length (hd data)) \<longrightarrow> ps' ! i = (x, y))
      \<and> (ps' ! i \<noteq> (x, y) \<longrightarrow>
           ps' ! i = (x, offset) \<or> ps' ! i = (x, int (length data) - offset - 1) \<or>
           ps' ! i = (0, y) \<or> ps' ! i = (int (length (hd data)) - offset - 1, y)))
   \<and> (table_ok st \<and> process_frame ap offset radius names st fr = Inr st' \<longrightarrow>
        (\<exists>rows. aperture_table st' = aperture_table st @ rows \<and>
           map (\<lambda>r. (py_int (xcenter r), py_int (ycenter r))) rows =
           map (\<lambda>p. (Inr (fst p), Inr (snd p))) (positions st')))"
proof (intro conjI impI)
  assume a: "find_objects_stats ap offset radius data ps = Inr (ps', tbl, peaks) \<and>
    i < length ps \<and> ps ! i = (x, y)"
  then have run: "find_objects_stats ap offset radius data ps = Inr (ps', tbl, peaks)"
    and i: "i < length ps" and p: "ps ! i = (x, y)"
    by simp_all
  note f = find_objects_stats_nth [OF run i]
  from f(1) f(5) have rule: "ps' ! i =
           (if y - offset < 0 then (x, offset)
            else if int (length data) \<le> y + offset then (x, int (length data) - offset - 1)
            else if x - offset < 0 then (0, y)
            else if int (length (hd data)) \<le> x + offset
                 then (int (length (hd data)) - offset - 1, y)
            else (x, y))"
    by (simp add: p clamp_position_rows)
  show "length ps' = length ps" by (rule f(2))
  {
    assume "0 \<le> y - offset \<and> y + offset < int (length data) \<and>
         0 \<le> x - offset \<and> x + offset < int (length (hd data))"
    with rule show "ps' ! i = (x, y)" by simp
  }
  {
    assume "ps' ! i \<noteq> (x, y)"
    with rule show "ps' ! i = (x, offset) \<or> ps' ! i = (x, int (length data) - offset - 1) \<or>
           ps' ! i = (0, y) \<or> ps' ! i = (int (length (hd data)) - offset - 1, y)"
      by (simp split: if_splits)
  }
next
  assume "table_ok st \<and> process_frame ap offset radius names st fr = Inr st'"
  then have ok: "table_ok st" and step: "process_frame ap offset radius names st fr = Inr st'"
    by simp_all
  show "\<exists>rows. aperture_table st' = aperture_table st @ rows \<and>
           map (\<lambda>r. (py_int (xcenter r), py_int (ycenter r))) rows =
           map (\<lambda>p. (Inr (fst p), Inr (snd p))) (positions st')"
    by (rule process_frame_view(4) [OF ok step])
qed

text \<open>
  Two objects on \<open>frame5\<close>: the first is in range and stays, the second is clamped; and
  the first frame of the run on \<open>sky_frame\<close>, which leaves the position at \<open>(4, 4)\<close>.
\<close>

theorem tracker_position_effect_witness:
  "find_objects_stats center_aperture 1 1 frame5 [(2, 2), (2, 0)] =
     Inr ([(2, 2), (2, 1)],
          [(Finite (5 / 3), Finite (31 / 18), Finite 18), (Finite (11 / 7), Finite (5 / 7), Finite 7)],
          [2, 1])
   \<and> [(2 :: int, 2 :: int), (2, 1)] ! 0 = (2, 2)
   \<and> [(2 :: int, 2 :: int), (2, 1)] ! 1 = (2, 1)
   \<and> table_ok (initial_state [[(1, 1), (4, 4)]])
   \<and> process_frame center_aperture 1 1 [''A0620''] (initial_state [[(1, 1), (4, 4)]]) sky_frame
       = Inr sky_state1
   \<and> positions sky_state1 = [(4, 4)]
   \<and> (\<exists>rows. aperture_table sky_state1 =
          aperture_table (initial_state [[(1, 1), (4, 4)]]) @ rows \<and>
          map (\<lambda>r. (py_int (xcenter r), py_int (ycenter r))) rows =
          map (\<lambda>p. (Inr (fst p), Inr (snd p))) (positions sky_state1))"
proof -
  have run: "find_objects_stats center_aperture 1 1 frame5 [(2, 2), (2, 0)] =
     Inr ([(2, 2), (2, 1)],
          [(Finite (5 / 3), Finite (31 / 18), Finite 18), (Finite (11 / 7), Finite (5 / 7), Finite 7)],
          [2, 1])"
    by (simp add: tracker_defs frame5_def center_aperture_def upt_unfold power2_eq_square)
  have ok: "table_ok (initial_state [[(1, 1), (4, 4)]])"
    by (simp add: table_ok_def initial_state_def rectangular_def)
  have pos: "positions sky_state1 = [(4, 4)]"
    by (simp add: positions_def column_def sky_state1_def)
  note t0 = tracker_position_effect [of center_aperture 1 1 frame5 "[(2, 2), (2, 0)]"
      "[(2, 2), (2, 1)]" _ "[2, 1]" 0 2 2 "initial_state [[(1, 1), (4, 4)]]" "[''A0620'']"
      sky_frame sky_state1]
  note t1 = tracker_position_effect [of center_aperture 1 1 frame5 "[(2, 2), (2, 0)]"
      "[(2, 2), (2, 1)]" _ "[2, 1]" 1 2 0 "initial_state [[(1, 1), (4, 4)]]" "[''A0620'']"
      sky_frame sky_state1]
  from t0 t1 run ok sky_step1 pos show ?thesis
    by simp
qed

text \<open>
  C9. \<^verbatim>\<open>positions\<close> is a view of a column of \<^verbatim>\<open>starting_positions\<close>, so the position
  update writes into the table. From a rectangular table read from the file, after any
  frame of a run that completes: the column the view shows holds the integer-truncated
  centroids of that frame's rows, not the file's coordinates; the view shows the column
  of the index, or the last column once the index has passed the rounds; and every
  column beyond the view still holds the file's coordinates, before the frame and after
  it. A fallback moves the view one column on, so it reads file coordinates, and the
  column holds tracked centroids from then on.
\<close>

theorem position_update_writes_through:
  assumes "sp \<noteq> []" and "hd sp \<noteq> []" and "rectangular sp"
    and "run ap offset radius names (initial_state sp) (frs @ [fr]) = Inr st'"
  shows "\<exists>st rows.
           run ap offset radius names (initial_state sp) frs = Inr st \<and>
           process_frame ap offset radius names st fr = Inr st' \<and>
           aperture_table st' = aperture_table st @ rows \<and>
           map (\<lambda>r. (py_int (xcenter r), py_int (ycenter r))) rows =
             map (\<lambda>p. (Inr (fst p), Inr (snd p)))
               (column (positions_col st') (starting_positions st')) \<and>
           positions_col st' =
             min (starting_positions_index st') (length (hd sp) - 1) \<and>
           (\<forall>k. positions_col st < k \<longrightarrow> column k (starting_positions st) = column k sp) \<and>
           (\<forall>k. positions_col st' < k \<longrightarrow> column k (starting_positions st') = column k sp)"
proof -
  note ok0 = table_ok_initial [OF assms(1-3)]
  from assms(4) obtain st where r: "run ap offset radius names (initial_state sp) frs = Inr st"
    and s: "run ap offset radius names st [fr] = Inr st'"
    by (auto simp: run_append split: sum.splits)
  from s have step: "process_frame ap offset radius names st fr = Inr st'"
    by (auto split: sum.splits)
  from run_view [OF ok0 r] have ok: "table_ok st"
    and before: "\<forall>k. positions_col st < k \<longrightarrow> column k (starting_positions st) = column k sp"
    by (simp_all add: initial_state_def)
  from run_view [OF ok0 assms(4)] have ok': "table_ok st'"
    and hd': "length (hd (starting_positions st')) = length (hd sp)"
    and after: "\<forall>k. positions_col st' < k \<longrightarrow> column k (starting_positions st') = column k sp"
    by (simp_all add: initial_state_def)
  from ok' hd' have col': "positions_col st' =
             min (starting_positions_index st') (length (hd sp) - 1)"
    by (simp add: table_ok_def)
  from process_frame_view(4) [OF ok step] obtain rows where
    "aperture_table st' = aperture_table st @ rows"
    "map (\<lambda>r. (py_int (xcenter r), py_int (ycenter r))) rows =
       map (\<lambda>p. (Inr (fst p), Inr (snd p))) (column (positions_col st') (starting_positions st'))"
    by (auto simp: positions_def)
  with r step col' before after show ?thesis by blast
qed

text \<open>
  The second round of the file says \<open>(5, 5)\<close>; after the fallback on the first frame the
  table says \<open>(4, 4)\<close> there, the truncated centroid, and the second frame starts from it.
\<close>

theorem position_update_writes_through_witness:
  "[[(1 :: int, 1 :: int), (5, 5)]] \<noteq> [] \<and> hd [[(1 :: int, 1 :: int), (5, 5)]] \<noteq> []
   \<and> rectangular [[(1 :: int, 1 :: int), (5, 5)]]
   \<and> run center_aperture 1 1 [''A0620''] (initial_state [[(1, 1), (5, 5)]])
         ([sky_frame] @ [sky_frame]) = Inr drift_state2
   \<and> column 1 [[(1 :: int, 1 :: int), (5, 5)]] = [(5, 5)]
   \<and> column (positions_col drift_state2) (starting_positions drift_state2) = [(4, 4)]
   \<and> map (\<lambda>r. (py_int (xcenter r), py_int (ycenter r)))
         [sky_row ''A0620'' (Finite 4) (Finite 4) (Finite 6) 4] = [(Inr 4, Inr 4)]
   \<and> (\<exists>st rows.
           run center_aperture 1 1 [''A0620''] (initial_state [[(1, 1), (5, 5)]]) [sky_frame]
             = Inr st \<and>
           process_frame center_aperture 1 1 [''A0620''] st sky_frame = Inr drift_state2 \<and>
           aperture_table drift_state2 = aperture_table st @ rows \<and>
           map (\<lambda>r. (py_int (xcenter r), py_int (ycenter r))) rows =
             map (\<lambda>p. (Inr (fst p), Inr (snd p)))
               (column (positions_col drift_state2) (starting_positions drift_state2)) \<and>
           positions_col drift_state2 =
             min (starting_positions_index drift_state2)
               (length (hd [[(1 :: int, 1 :: int), (5, 5)]]) - 1) \<and>
           (\<forall>k. positions_col st < k \<longrightarrow>
              column k (starting_positions st) = column k [[(1, 1), (5, 5)]]) \<and>
           (\<forall>k. positions_col drift_state2 < k \<longrightarrow>
              column k (starting_positions drift_state2) = column k [[(1, 1), (5, 5)]]))"
proof -
  have h1: "[[(1 :: int, 1 :: int), (5, 5)]] \<noteq> []" and h2: "hd [[(1 :: int, 1 :: int), (5, 5)]] \<noteq> []"
    and h3: "rectangular [[(1 :: int, 1 :: int), (5, 5)]]"
    by (simp_all add: rectangular_def)
  have r: "run center_aperture 1 1 [''A0620''] (initial_state [[(1, 1), (5, 5)]])
         ([sky_frame] @ [sky_frame]) = Inr drift_state2"
    by (simp add: drift_step1 drift_step2)
  have c0: "column 1 [[(1 :: int, 1 :: int), (5, 5)]] = [(5, 5)]"
    by (simp add: column_def)
  have c1: "column (positions_col drift_state2) (starting_positions drift_state2) = [(4, 4)]"
    by (simp add: column_def drift_state2_def)
  have c2: "map (\<lambda>r. (py_int (xcenter r), py_int (ycenter r)))
         [sky_row ''A0620'' (Finite 4) (Finite 4) (Finite 6) 4] = [(Inr 4, Inr 4)]"
    by (simp add: sky_row_def make_row_def py_trunc_def)
  note w = position_update_writes_through [OF h1 h2 h3 r]
  show ?thesis
    by (intro conjI h1 h2 h3 r c0 c1 c2 w)
qed

subsection \<open>The coordinate file\<close>

text \<open>
  C10. Every line of the text, split at the newlines, is parsed, the empty ones too, and a line
  without \<open>:\<close> raises IndexError at \<^verbatim>\<open>line.split(':')[1]\<close>; a file with such a line
  ends the script before any frame is opened. A file whose last character is a newline
  has an empty last line, so it is rejected, with that IndexError when all lines before
  it parse.
\<close>

theorem line_without_colon_is_fatal:
  "(CHR '':'' \<notin> set line \<longrightarrow> parse_line int_float line = Inl IndexError)
   \<and> (line \<in> set (split_on CHR ''\<newline>'' text) \<and> CHR '':'' \<notin> set line \<longrightarrow>
        (\<exists>e. read_coords int_float text = Inl e \<and>
              photometry_pipeline int_float ap offset radius text frames = Inl e))
   \<and> (text \<noteq> [] \<and> last text = CHR ''\<newline>'' \<longrightarrow>
        [] \<in> set (split_on CHR ''\<newline>'' text) \<and>
        (\<exists>e. read_coords int_float text = Inl e \<and>
              photometry_pipeline int_float ap offset radius text frames = Inl e) \<and>
        (\<forall>acc. parse_lines int_float ([], []) (split_on CHR ''\<newline>'' (butlast text)) = Inr acc
           \<longrightarrow> read_coords int_float text = Inl IndexError \<and>
               photometry_pipeline int_float ap offset radius text frames = Inl IndexError))"
proof -
  have bad: "\<exists>e. read_coords int_float t = Inl e \<and>
              photometry_pipeline int_float ap offset radius t frames = Inl e"
    if "l \<in> set (split_on CHR ''\<newline>'' t)" and "CHR '':'' \<notin> set l" for l t
  proof -
    from parse_lines_bad [OF that(1) parse_line_no_colon [OF that(2)]]
    obtain e where "parse_lines int_float ([], []) (split_on CHR ''\<newline>'' t) = Inl e"
      by blast
    then have "read_coords int_float t = Inl e"
      by (simp add: read_coords_def)
    then show ?thesis by (simp add: photometry_pipeline_def)
  qed
  have trail: "[] \<in> set (split_on CHR ''\<newline>'' text) \<and>
        (\<exists>e. read_coords int_float text = Inl e \<and>
              photometry_pipeline int_float ap offset radius text frames = Inl e) \<and>
        (\<forall>acc. parse_lines int_float ([], []) (split_on CHR ''\<newline>'' (butlast text)) = Inr acc
           \<longrightarrow> read_coords int_float text = Inl IndexError \<and>
               photometry_pipeline int_float ap offset radius text frames = Inl IndexError)"
    if t: "text \<noteq> []" "last text = CHR ''\<newline>''"
  proof -
    note sp = split_on_trailing [OF t]
    then have mem: "[] \<in> set (split_on CHR ''\<newline>'' text)" by simp
    have e: "parse_line int_float [] = Inl IndexError"
      by (rule parse_line_no_colon) simp
    have "read_coords int_float text = Inl IndexError \<and>
               photometry_pipeline int_float ap offset radius text frames = Inl IndexError"
      if "parse_lines int_float ([], []) (split_on CHR ''\<newline>'' (butlast text)) = Inr acc" for acc
    proof -
      from that e have "parse_lines int_float ([], []) (split_on CHR ''\<newline>'' text) = Inl IndexError"
        by (simp add: sp parse_lines_append)
      then have "read_coords int_float text = Inl IndexError"
        by (simp add: read_coords_def)
      then show ?thesis by (simp add: photometry_pipeline_def)
    qed
    with mem bad [OF mem] show ?thesis by simp
  qed
  from parse_line_no_colon bad trail show ?thesis by blast
qed

text \<open>The two-line file of the documentation with a newline at its end.\<close>

theorem line_without_colon_is_fatal_witness:
  "coords_text \<noteq> [] \<and> last coords_text = CHR ''\<newline>''
   \<and> parse_lines digits_int_float ([], []) (split_on CHR ''\<newline>'' (butlast coords_text))
       = Inr ([''A0620'', ''compstar1''], [[(478, 565)], [(385, 535)]])
   \<and> [] \<in> set (split_on CHR ''\<newline>'' coords_text)
   \<and> CHR '':'' \<notin> set ''''
   \<and> parse_line digits_int_float '''' = Inl IndexError
   \<and> read_coords digits_int_float coords_text = Inl IndexError
   \<and> photometry_pipeline digits_int_float center_aperture 10 5 coords_text [sky_frame]
       = Inl IndexError"
proof -
  have a: "coords_text \<noteq> []" "last coords_text = CHR ''\<newline>''"
    by (simp_all add: coords_text_def)
  have p: "parse_lines digits_int_float ([], []) (split_on CHR ''\<newline>'' (butlast coords_text))
       = Inr ([''A0620'', ''compstar1''], [[(478, 565)], [(385, 535)]])"
    by (simp only: coords_text_lines coords_text_parsed)
  from line_without_colon_is_fatal [of "''''" digits_int_float coords_text center_aperture 10 5
      "[sky_frame]"] a p
  show ?thesis by simp
qed

end
